theory Spec2Isabelle
  imports Main
begin

section \<open>JavaScript values and helpers\<close>

text \<open>
  JSON values as the handlers see them after \<^verbatim>\<open>request.json()\<close>. Numbers are integers
  (statuses, durations, limits); an object is the list of its properties in insertion
  order (JavaScript lists integer-like keys first; that reordering is left out, and the
  statements below read objects by key). Strings are lists of 8-bit characters.
\<close>

datatype json =
    JNull
  | JBool bool
  | JNum int
  | JStr string
  | JArr "json list"
  | JObj "(string \<times> json) list"

text \<open>Truthiness of a value; \<open>None\<close> stands for \<^verbatim>\<open>undefined\<close>.\<close>

fun truthy :: "json \<Rightarrow> bool" where
  "truthy JNull = False"
| "truthy (JBool b) = b"
| "truthy (JNum n) = (n \<noteq> 0)"
| "truthy (JStr s) = (s \<noteq> [])"
| "truthy (JArr xs) = True"
| "truthy (JObj kvs) = True"

fun truthy_opt :: "json option \<Rightarrow> bool" where
  "truthy_opt None = False"
| "truthy_opt (Some v) = truthy v"

text \<open>\<^verbatim>\<open>typeof v === 'string'\<close>.\<close>

fun is_string :: "json option \<Rightarrow> bool" where
  "is_string (Some (JStr s)) = True"
| "is_string v = False"

text \<open>
  \<^verbatim>\<open>v.name\<close> for one of the names the handlers read (\<^verbatim>\<open>targetApiUrl\<close>,
  \<^verbatim>\<open>adminPassword\<close>, \<^verbatim>\<open>endpoint\<close>, \<^verbatim>\<open>timestamp\<close>, \<^verbatim>\<open>updatedAt\<close>) on a value that is
  not \<^verbatim>\<open>null\<close>: the property of an object, \<^verbatim>\<open>undefined\<close> on anything else. Reading a
  property of \<^verbatim>\<open>null\<close> throws; the callers test for it first.
\<close>

fun property :: "string \<Rightarrow> json \<Rightarrow> json option" where
  "property k (JObj kvs) = map_of kvs k"
| "property k v = None"

text \<open>Assignment \<^verbatim>\<open>o[k] = v\<close>: an existing property keeps its place, a new one goes last.\<close>

fun obj_set :: "string \<Rightarrow> json \<Rightarrow> (string \<times> json) list \<Rightarrow> (string \<times> json) list" where
  "obj_set k v [] = [(k, v)]"
| "obj_set k v ((k', v') # kvs) =
     (if k' = k then (k, v) # kvs else (k', v') # obj_set k v kvs)"

text \<open>
  An object literal \<^verbatim>\<open>{ k1: v1, ...spread, kn: vn }\<close>: the properties are assigned from left
  to right to a fresh object.
\<close>

definition object_of :: "(string \<times> json) list \<Rightarrow> (string \<times> json) list" where
  "object_of kvs = foldl (\<lambda>obj (k, v). obj_set k v obj) [] kvs"

text \<open>Decimal text of an index, as property names of spread arrays and strings.\<close>

definition digit_char :: "nat \<Rightarrow> char" where
  "digit_char d = char_of (48 + d)"

fun dec_str :: "nat \<Rightarrow> string" where
  "dec_str n = (if n < 10 then [digit_char n] else dec_str (n div 10) @ [digit_char (n mod 10)])"

declare dec_str.simps [simp del]

text \<open>
  The own enumerable properties that \<^verbatim>\<open>...v\<close> copies: those of an object, the indexed
  elements of an array, the indexed characters of a string, none for a number, a boolean
  or \<^verbatim>\<open>null\<close>.
\<close>

fun own_props :: "json \<Rightarrow> (string \<times> json) list" where
  "own_props (JObj kvs) = kvs"
| "own_props (JArr xs) = zip (map dec_str [0..<length xs]) xs"
| "own_props (JStr s) = zip (map dec_str [0..<length s]) (map (\<lambda>c. JStr [c]) s)"
| "own_props v = []"

text \<open>\<^verbatim>\<open>s.startsWith(p)\<close> and \<^verbatim>\<open>s.replace(p, r)\<close> with a string pattern (first occurrence).\<close>

definition startsWith :: "string \<Rightarrow> string \<Rightarrow> bool" where
  "startsWith s p = (take (length p) s = p)"

fun replace_first :: "string \<Rightarrow> string \<Rightarrow> string \<Rightarrow> string" where
  "replace_first p r [] = (if p = [] then r else [])"
| "replace_first p r (c # cs) =
     (if startsWith (c # cs) p then r @ drop (length p) (c # cs)
      else c # replace_first p r cs)"

text \<open>\<^verbatim>\<open>s.replace(/\/$/, '')\<close>: one slash at the very end is removed.\<close>

definition strip_slash :: "string \<Rightarrow> string" where
  "strip_slash s = (if s \<noteq> [] \<and> last s = CHR ''/'' then butlast s else s)"

text \<open>
  \<^verbatim>\<open>xs.slice(start)\<close> with one argument: a negative start counts from the end, and both
  ends are clamped.
\<close>

definition slice_from :: "int \<Rightarrow> 'a list \<Rightarrow> 'a list" where
  "slice_from start xs =
     (if start < 0 then drop (nat (max (int (length xs) + start) 0)) xs
      else drop (nat start) xs)"

section \<open>Requests, responses and the world outside\<close>

text \<open>
  A request as the handlers read it: method, URL protocol, path and query parameters,
  headers under their lower-case names, and the body. A body whose text parses as JSON
  is \<open>JsonBody\<close> of the parsed value, any other text is \<open>TextBody\<close>; so \<^verbatim>\<open>.json()\<close>
  yields the value of a \<open>JsonBody\<close> and rejects on the rest, and
  \<^verbatim>\<open>JSON.stringify(v)\<close> as a body is \<open>JsonBody v\<close>.
\<close>

datatype body = NoBody | TextBody string | JsonBody json

record request =
  rq_method :: string
  rq_protocol :: string
  rq_pathname :: string
  rq_query :: "(string \<times> string) list"
  rq_headers :: "(string \<times> string) list"
  rq_body :: body

fun body_json :: "body \<Rightarrow> json option" where
  "body_json (JsonBody v) = Some v"
| "body_json b = None"

definition json_syntax_error :: string where
  "json_syntax_error = ''Unexpected token in JSON''"

record response =
  rs_status :: nat
  rs_statusText :: string
  rs_headers :: "(string \<times> string) list"
  rs_body :: body

text \<open>
  \<^verbatim>\<open>new Response(JSON.stringify(v), { status, headers: JSON })\<close>, and
  \<^verbatim>\<open>new Response(text, { status })\<close>, to which the platform adds the content type of a
  text body.
\<close>

definition json_response :: "nat \<Rightarrow> json \<Rightarrow> response" where
  "json_response st v =
     \<lparr>rs_status = st, rs_statusText = [], rs_headers = [(''content-type'', ''application/json'')],
      rs_body = JsonBody v\<rparr>"

definition text_response :: "nat \<Rightarrow> string \<Rightarrow> response" where
  "text_response st s =
     \<lparr>rs_status = st, rs_statusText = [],
      rs_headers = [(''content-type'', ''text/plain;charset=UTF-8'')], rs_body = TextBody s\<rparr>"

definition response_ok :: "response \<Rightarrow> bool" where
  "response_ok r = (200 \<le> rs_status r \<and> rs_status r \<le> 299)"

text \<open>\<^verbatim>\<open>headers.get(name)\<close>, \<^verbatim>\<open>headers.set\<close>, \<^verbatim>\<open>headers.delete\<close> on lower-case names.\<close>

definition hget :: "string \<Rightarrow> (string \<times> string) list \<Rightarrow> string option" where
  "hget name hs = map_of hs name"

fun hset :: "string \<Rightarrow> string \<Rightarrow> (string \<times> string) list \<Rightarrow> (string \<times> string) list" where
  "hset k v [] = [(k, v)]"
| "hset k v ((k', v') # hs) = (if k' = k then (k, v) # hs else (k', v') # hset k v hs)"

definition hdelete :: "string \<Rightarrow> (string \<times> string) list \<Rightarrow> (string \<times> string) list" where
  "hdelete k hs = filter (\<lambda>(k', v). k' \<noteq> k) hs"

text \<open>
  The values a handler takes from the clock and the random generator during one call:
  \<^verbatim>\<open>Date.now()\<close> at its start and after forwarding, \<^verbatim>\<open>new Date().toISOString()\<close> in the
  handler and in the store, and the identifier \<^verbatim>\<open>generateId()\<close> builds.
\<close>

record clock =
  t_start :: int
  t_end :: int
  iso_handler :: string
  iso_store :: string
  new_id :: string

section \<open>The durable store (storage.js)\<close>

text \<open>
  The two keys of \<^verbatim>\<open>state.storage\<close>; \<open>None\<close> is a key that was never put, which every
  read replaces by \<^verbatim>\<open>{}\<close> or \<^verbatim>\<open>[]\<close>. A thrown exception is \<open>Inl\<close> of its message.
\<close>

record storage =
  st_config :: "(string \<times> json) list option"
  st_logs :: "json list option"

definition stored_config :: "storage \<Rightarrow> (string \<times> json) list" where
  "stored_config st = (case st_config st of None \<Rightarrow> [] | Some c \<Rightarrow> c)"

definition stored_logs :: "storage \<Rightarrow> json list" where
  "stored_logs st = (case st_logs st of None \<Rightarrow> [] | Some l \<Rightarrow> l)"

definition null_property_error :: string where
  "null_property_error = ''Cannot read properties of null''"

definition getConfig :: "storage \<Rightarrow> (string + response) \<times> storage" where
  "getConfig st = (Inr (json_response 200 (JObj (stored_config st))), st)"

definition setConfig :: "json \<Rightarrow> clock \<Rightarrow> storage \<Rightarrow> (string + response) \<times> storage" where
  "setConfig data clk st =
     (if data = JNull then (Inl null_property_error, st)
      else if truthy_opt (property ''targetApiUrl'' data) \<and> \<not> is_string (property ''targetApiUrl'' data)
      then (Inr (json_response 400 (JObj [(''error'', JStr ''Invalid targetApiUrl'')])), st)
      else if truthy_opt (property ''adminPassword'' data) \<and> \<not> is_string (property ''adminPassword'' data)
      then (Inr (json_response 400 (JObj [(''error'', JStr ''Invalid adminPassword'')])), st)
      else
        let existingConfig = stored_config st;
            newConfig = object_of (existingConfig @ own_props data
                                   @ [(''updatedAt'', JStr (iso_store clk))])
        in (Inr (json_response 200 (JObj newConfig)), st\<lparr>st_config := Some newConfig\<rparr>))"

definition getLogs :: "int \<Rightarrow> storage \<Rightarrow> (string + response) \<times> storage" where
  "getLogs limit st =
     (Inr (json_response 200 (JArr (slice_from (- limit) (stored_logs st)))), st)"

text \<open>\<^verbatim>\<open>logs.push(newLog); if (logs.length > 1000) logs.splice(0, logs.length - 1000)\<close>.\<close>

definition push_capped :: "json \<Rightarrow> json list \<Rightarrow> json list" where
  "push_capped newLog logs =
     (let logs1 = logs @ [newLog]
      in if length logs1 > 1000 then drop (length logs1 - 1000) logs1 else logs1)"

definition make_log :: "string \<Rightarrow> json \<Rightarrow> string \<Rightarrow> json" where
  "make_log ident logData stamp =
     JObj (object_of ([(''id'', JStr ident)] @ own_props logData @ [(''timestamp'', JStr stamp)]))"

definition addLog :: "json \<Rightarrow> clock \<Rightarrow> storage \<Rightarrow> (string + response) \<times> storage" where
  "addLog logData clk st =
     (if logData = JNull then (Inl null_property_error, st)
      else if \<not> truthy_opt (property ''endpoint'' logData) \<or> \<not> truthy_opt (property ''timestamp'' logData)
      then (Inr (json_response 400 (JObj [(''error'', JStr ''Missing required fields'')])), st)
      else
        let logs = stored_logs st;
            newLog = make_log (new_id clk) logData (iso_store clk)
        in (Inr (json_response 200 newLog), st\<lparr>st_logs := Some (push_capped newLog logs)\<rparr>))"

definition clearLogs :: "storage \<Rightarrow> (string + response) \<times> storage" where
  "clearLogs st =
     (Inr (json_response 200 (JObj [(''message'', JStr ''Logs cleared'')])), st\<lparr>st_logs := Some []\<rparr>)"

text \<open>
  \<^verbatim>\<open>parseInt(s)\<close> without a radix: leading white space, a sign, an optional
  \<^verbatim>\<open>0x\<close> prefix, then the longest run of digits; \<open>None\<close> is \<^verbatim>\<open>NaN\<close>. Values beyond
  the exact range of a double are not rounded here.
\<close>

definition is_space :: "char \<Rightarrow> bool" where
  "is_space c = (of_char c \<in> {9, 10, 11, 12, 13, 32, 160 :: nat})"

definition digit_of :: "char \<Rightarrow> nat" where
  "digit_of c =
     (let n = (of_char c :: nat)
      in if 48 \<le> n \<and> n \<le> 57 then n - 48
         else if 97 \<le> n \<and> n \<le> 122 then n - 87
         else if 65 \<le> n \<and> n \<le> 90 then n - 55
         else 36)"

definition parseInt :: "string \<Rightarrow> int option" where
  "parseInt s =
     (let s1 = dropWhile is_space s;
          neg = startsWith s1 ''-'';
          s2 = (if startsWith s1 ''-'' \<or> startsWith s1 ''+'' then drop 1 s1 else s1);
          hex = (startsWith s2 ''0x'' \<or> startsWith s2 ''0X'');
          R = (if hex then 16 else 10);
          s3 = (if hex then drop 2 s2 else s2);
          ds = takeWhile (\<lambda>c. digit_of c < R) s3;
          m = foldl (\<lambda>a c. a * R + digit_of c) 0 ds
      in if ds = [] then None
         else Some (if neg then - int m else int m))"

text \<open>
  \<^verbatim>\<open>parseInt(url.searchParams.get('limit')) || 50\<close>: an absent parameter is \<^verbatim>\<open>null\<close>,
  read as the text \<^verbatim>\<open>null\<close>.
\<close>

definition limit_param :: "request \<Rightarrow> int" where
  "limit_param req =
     (case parseInt (case map_of (rq_query req) ''limit'' of None \<Rightarrow> ''null'' | Some s \<Rightarrow> s) of
        None \<Rightarrow> 50
      | Some n \<Rightarrow> if n = 0 then 50 else n)"

text \<open>
  What lies outside the program: the global \<^verbatim>\<open>fetch\<close>, together with the building of
  the outbound request before it (\<open>Inl\<close> is the message of the exception that
  \<^verbatim>\<open>new Headers\<close>, \<^verbatim>\<open>headers.set\<close>, \<^verbatim>\<open>new Request\<close> or \<^verbatim>\<open>fetch\<close> throws), the bundled admin document
  of the in-memory variant, and the arithmetic of the statistics, which the source does
  on doubles and with coercion of whatever the log entries hold: the rounded success
  percentage and average duration of a non-empty log, and
  \<^verbatim>\<open>Math.round((s / t) * 100)\<close>, \<^verbatim>\<open>Math.round(d / t)\<close> on counters.
\<close>

record out_request =
  oq_url :: string
  oq_method :: string
  oq_headers :: "(string \<times> string) list"
  oq_body :: body

record platform =
  pf_fetch :: "out_request \<Rightarrow> string + response"
  pf_adminHtml :: string
  pf_successRate :: "json list \<Rightarrow> json"
  pf_avgResponseTime :: "json list \<Rightarrow> json"
  pf_roundPercent :: "int \<Rightarrow> int \<Rightarrow> json"
  pf_roundQuotient :: "int \<Rightarrow> int \<Rightarrow> json"

text \<open>\<^verbatim>\<open>v || null\<close>.\<close>

fun or_null :: "json option \<Rightarrow> json" where
  "or_null None = JNull"
| "or_null (Some v) = (if truthy v then v else JNull)"

definition getStats :: "platform \<Rightarrow> storage \<Rightarrow> (string + response) \<times> storage" where
  "getStats pf st =
     (let config = stored_config st;
          logs = stored_logs st;
          totalRequests = length logs;
          successRate = (if totalRequests > 0 then pf_successRate pf logs else JNum 0);
          avgResponseTime = (if totalRequests > 0 then pf_avgResponseTime pf logs else JNum 0);
          stats = JObj [(''totalRequests'', JNum (int totalRequests)),
                        (''successRate'', successRate),
                        (''avgResponseTime'', avgResponseTime),
                        (''currentTarget'', or_null (map_of config ''targetApiUrl'')),
                        (''lastUpdated'', or_null (map_of config ''updatedAt''))]
      in (Inr (json_response 200 stats), st))"

text \<open>The preflight answer of the store (no max-age) and its request routing.\<close>

definition storage_handleOptions :: "request \<Rightarrow> response" where
  "storage_handleOptions req =
     \<lparr>rs_status = 200, rs_statusText = [],
      rs_headers = [(''access-control-allow-origin'', ''*''),
                    (''access-control-allow-methods'', ''GET, POST, PUT, DELETE, OPTIONS''),
                    (''access-control-allow-headers'',
                       (case hget ''access-control-request-headers'' (rq_headers req) of
                          None \<Rightarrow> ''*'' | Some h \<Rightarrow> if h = [] then ''*'' else h))],
      rs_body = NoBody\<rparr>"

definition storage_handleConfig :: "request \<Rightarrow> clock \<Rightarrow> storage \<Rightarrow> (string + response) \<times> storage" where
  "storage_handleConfig req clk st =
     (if rq_method req = ''GET'' then getConfig st
      else if rq_method req = ''POST'' then
        (case body_json (rq_body req) of
           None \<Rightarrow> (Inl json_syntax_error, st)
         | Some data \<Rightarrow> setConfig data clk st)
      else (Inr (text_response 405 ''Method not allowed''), st))"

definition storage_handleLogs :: "request \<Rightarrow> clock \<Rightarrow> storage \<Rightarrow> (string + response) \<times> storage" where
  "storage_handleLogs req clk st =
     (if rq_method req = ''GET'' then getLogs (limit_param req) st
      else if rq_method req = ''POST'' then
        (case body_json (rq_body req) of
           None \<Rightarrow> (Inl json_syntax_error, st)
         | Some logData \<Rightarrow> addLog logData clk st)
      else if rq_method req = ''DELETE'' then clearLogs st
      else (Inr (text_response 405 ''Method not allowed''), st))"

definition storage_handleStats :: "platform \<Rightarrow> request \<Rightarrow> storage \<Rightarrow> (string + response) \<times> storage" where
  "storage_handleStats pf req st =
     (if rq_method req = ''GET'' then getStats pf st
      else (Inr (text_response 405 ''Method not allowed''), st))"

text \<open>
  \<^verbatim>\<open>LLMProxyStorage.fetch\<close>. The handlers are returned without \<^verbatim>\<open>await\<close>, so what they
  throw is not caught here and reaches the caller of \<^verbatim>\<open>stub.fetch\<close>.
\<close>

definition storage_fetch :: "platform \<Rightarrow> request \<Rightarrow> clock \<Rightarrow> storage \<Rightarrow> (string + response) \<times> storage" where
  "storage_fetch pf req clk st =
     (let path = rq_pathname req
      in if rq_method req = ''OPTIONS'' then (Inr (storage_handleOptions req), st)
         else if startsWith path ''/config'' then storage_handleConfig req clk st
         else if startsWith path ''/logs'' then storage_handleLogs req clk st
         else if startsWith path ''/stats'' then storage_handleStats pf req st
         else (Inr (text_response 404 ''Not found''), st))"

section \<open>What both workers share (index.js and its in-memory variant)\<close>

record env =
  ENVIRONMENT :: "string option"
  ADMIN_PASSWORD :: "string option"
  ADMIN_HTML_PATH :: "string option"
  TARGET_API_URL :: "string option"
  TARGET_API_KEY :: "string option"
  DEBUG :: bool

text \<open>The worker's state: its store and the outbound requests handed to \<^verbatim>\<open>fetch\<close> so far.\<close>

record 's world =
  w_store :: 's
  w_calls :: "out_request list"

text \<open>\<^verbatim>\<open>a || b\<close> on optional strings.\<close>

fun str_or :: "string option \<Rightarrow> string option \<Rightarrow> string option" where
  "str_or (Some a) b = (if a = [] then b else Some a)"
| "str_or None b = b"

definition handleOptions :: "request \<Rightarrow> response" where
  "handleOptions req =
     \<lparr>rs_status = 200, rs_statusText = [],
      rs_headers = [(''access-control-allow-origin'', ''*''),
                    (''access-control-allow-methods'', ''GET, POST, PUT, DELETE, OPTIONS''),
                    (''access-control-allow-headers'',
                       (case hget ''access-control-request-headers'' (rq_headers req) of
                          None \<Rightarrow> ''*'' | Some h \<Rightarrow> if h = [] then ''*'' else h)),
                    (''access-control-max-age'', ''86400'')],
      rs_body = NoBody\<rparr>"

text \<open>
  The \<^verbatim>\<open>try\<close> block of \<^verbatim>\<open>forwardRequest\<close>: the outbound request it builds, and the
  relayed response or the exception. Console output, and with it the parsing of an
  upstream error body, leaves no trace in the result.
\<close>

definition forward_request_of :: "request \<Rightarrow> string \<Rightarrow> env \<Rightarrow> out_request" where
  "forward_request_of req targetUrl e =
     (let headers0 = rq_headers req;
          targetApiKey = str_or (hget ''x-target-api-key'' headers0) (TARGET_API_KEY e);
          headers1 = (case targetApiKey of
                        None \<Rightarrow> headers0
                      | Some k \<Rightarrow> if k = [] then headers0
                                  else hset ''authorization'' (''Bearer '' @ k) headers0);
          headers2 = hdelete ''x-target-api-key'' (hdelete ''x-target-api-url''
                       (hdelete ''content-length'' (hdelete ''host'' headers1)));
          headers3 = hset ''user-agent'' ''LLM-Proxy-API/1.0'' headers2
      in \<lparr>oq_url = targetUrl, oq_method = rq_method req, oq_headers = headers3,
          oq_body = rq_body req\<rparr>)"

text \<open>
  \<^verbatim>\<open>new Response(body, { status, ... })\<close> throws a RangeError for a status outside 200 to
  599 and a TypeError for a body together with a null-body status.
\<close>

definition relay_error :: "response \<Rightarrow> string option" where
  "relay_error r =
     (if rs_status r < 200 \<or> 599 < rs_status r then Some ''RangeError: invalid status''
      else if (rs_status r = 204 \<or> rs_status r = 205 \<or> rs_status r = 304) \<and> rs_body r \<noteq> NoBody
      then Some ''TypeError: null body status with a body''
      else None)"

definition forward_try :: "platform \<Rightarrow> request \<Rightarrow> string \<Rightarrow> env \<Rightarrow> string + response" where
  "forward_try pf req targetUrl e =
     (case pf_fetch pf (forward_request_of req targetUrl e) of
        Inl msg \<Rightarrow> Inl msg
      | Inr response \<Rightarrow>
          (case relay_error response of
             Some msg \<Rightarrow> Inl msg
           | None \<Rightarrow>
               Inr (response\<lparr>rs_headers :=
                      hset ''x-content-type-options'' ''nosniff''
                        (hset ''access-control-allow-origin'' ''*'' (rs_headers response))\<rparr>)))"

definition forwardRequest ::
  "platform \<Rightarrow> request \<Rightarrow> string \<Rightarrow> env \<Rightarrow> out_request list \<Rightarrow> (string + response) \<times> out_request list" where
  "forwardRequest pf req targetUrl e calls =
     (case forward_try pf req targetUrl e of
        Inr modifiedResponse \<Rightarrow> Inr modifiedResponse
      | Inl msg \<Rightarrow> Inr (json_response 502 (JObj [(''error'', JStr ''Failed to forward request''),
                                                  (''message'', JStr msg)])),
      calls @ [forward_request_of req targetUrl e])"

text \<open>Text of a value inside a template literal; an array joins its elements with commas.\<close>

fun join_comma :: "string list \<Rightarrow> string" where
  "join_comma [] = []"
| "join_comma [s] = s"
| "join_comma (s # t # ss) = s @ '','' @ join_comma (t # ss)"

fun to_text :: "json \<Rightarrow> string" where
  "to_text JNull = ''null''"
| "to_text (JBool b) = (if b then ''true'' else ''false'')"
| "to_text (JNum n) = (if n < 0 then ''-'' @ dec_str (nat (- n)) else dec_str (nat n))"
| "to_text (JStr s) = s"
| "to_text (JArr xs) = join_comma (map (\<lambda>x. if x = JNull then [] else to_text x) xs)"
| "to_text (JObj kvs) = ''[object Object]''"

definition handleTestConnection ::
  "platform \<Rightarrow> request \<Rightarrow> out_request list \<Rightarrow> (string + response) \<times> out_request list" where
  "handleTestConnection pf req calls =
     (case body_json (rq_body req) of
        None \<Rightarrow> (Inr (json_response 502 (JObj [(''error'', JStr ''Connection failed''),
                                                 (''message'', JStr json_syntax_error)])), calls)
      | Some data \<Rightarrow>
          if data = JNull then
            (Inr (json_response 502 (JObj [(''error'', JStr ''Connection failed''),
                                           (''message'', JStr null_property_error)])), calls)
          else (case property ''targetApiUrl'' data of
                  None \<Rightarrow> (Inr (json_response 400 (JObj [(''error'', JStr ''Missing targetApiUrl'')])), calls)
                | Some targetApiUrl \<Rightarrow>
                    if \<not> truthy targetApiUrl then
                      (Inr (json_response 400 (JObj [(''error'', JStr ''Missing targetApiUrl'')])), calls)
                    else
                      let probe = \<lparr>oq_url = to_text targetApiUrl @ ''/v1/models'', oq_method = ''GET'',
                                   oq_headers = [(''user-agent'', ''LLM-Proxy-API/1.0'')],
                                   oq_body = NoBody\<rparr>
                      in (case pf_fetch pf probe of
                            Inl msg \<Rightarrow>
                              (Inr (json_response 502 (JObj [(''error'', JStr ''Connection failed''),
                                                             (''message'', JStr msg)])), calls @ [probe])
                          | Inr response \<Rightarrow>
                              if rs_status response = 401 \<or> rs_status response = 403
                                 \<or> rs_status response = 404 \<or> rs_status response \<ge> 200
                              then (Inr (json_response 200
                                      (JObj [(''message'', JStr ''Connection successful''),
                                             (''status'', JNum (int (rs_status response)))])),
                                    calls @ [probe])
                              else (Inr (json_response 502
                                      (JObj [(''error'', JStr ''Connection failed''),
                                             (''status'', JNum (int (rs_status response))),
                                             (''statusText'', JStr (rs_statusText response))])),
                                    calls @ [probe]))))"

text \<open>The entry a handler hands to \<^verbatim>\<open>logRequest\<close>.\<close>

record logData =
  ld_endpoint :: string
  ld_targetApi :: string
  ld_status :: nat
  ld_duration :: int
  ld_timestamp :: string
  ld_error :: "string option"

definition logData_json :: "logData \<Rightarrow> json" where
  "logData_json d =
     JObj ([(''endpoint'', JStr (ld_endpoint d)),
            (''targetApi'', JStr (ld_targetApi d)),
            (''status'', JNum (int (ld_status d))),
            (''duration'', JNum (ld_duration d)),
            (''timestamp'', JStr (ld_timestamp d))]
           @ (case ld_error d of None \<Rightarrow> [] | Some m \<Rightarrow> [(''error'', JStr m)]))"

text \<open>The headers of the admin document and the default upstream.\<close>

definition admin_headers :: "(string \<times> string) list" where
  "admin_headers =
     [(''content-type'', ''text/html; charset=utf-8''),
      (''x-content-type-options'', ''nosniff''),
      (''x-frame-options'', ''DENY''),
      (''content-security-policy'',
       ''default-src 'self'; script-src 'self' 'unsafe-inline'; style-src 'self' 'unsafe-inline';'')]"

definition default_target :: string where
  "default_target = ''https://api.openai.com''"

definition unauthorized :: response where
  "unauthorized = json_response 401 (JObj [(''error'', JStr ''Unauthorized'')])"

definition internal_error :: "string \<Rightarrow> response" where
  "internal_error msg =
     json_response 500 (JObj [(''error'', JStr ''Internal server error''), (''message'', JStr msg)])"

text \<open>The route checks that open both \<^verbatim>\<open>fetch\<close> handlers.\<close>

definition insecure_in_production :: "request \<Rightarrow> env \<Rightarrow> bool" where
  "insecure_in_production req e = (ENVIRONMENT e = Some ''production'' \<and> rq_protocol req \<noteq> ''https:'')"

definition health_response :: response where
  "health_response =
     json_response 200 (JObj [(''status'', JStr ''OK''), (''message'', JStr ''LLM Proxy API is running'')])"

definition static_target :: "env \<Rightarrow> string" where
  "static_target e =
     strip_slash (case str_or (TARGET_API_URL e) None of None \<Rightarrow> default_target | Some u \<Rightarrow> u)"

section \<open>The worker over the durable store (index.js)\<close>

text \<open>A request made through the stub of the durable object.\<close>

definition stub_request :: "string \<Rightarrow> string \<Rightarrow> (string \<times> string) list \<Rightarrow> body \<Rightarrow> request" where
  "stub_request m path hs b =
     \<lparr>rq_method = m, rq_protocol = ''http:'', rq_pathname = path, rq_query = [],
      rq_headers = hs, rq_body = b\<rparr>"

text \<open>Assigning \<^verbatim>\<open>url.pathname\<close>: the path of an http URL starts with a slash.\<close>

definition set_pathname :: "string \<Rightarrow> string" where
  "set_pathname p = (if startsWith p ''/'' then p else ''/'' @ p)"

definition handleStorageRequest ::
  "platform \<Rightarrow> request \<Rightarrow> clock \<Rightarrow> storage \<Rightarrow> (string + response) \<times> storage" where
  "handleStorageRequest pf req clk st =
     storage_fetch pf
       (req\<lparr>rq_pathname := set_pathname (replace_first ''/api/storage'' [] (rq_pathname req))\<rparr>)
       clk st"

text \<open>\<^verbatim>\<open>getAdminHtml\<close> fetches the document and falls back to a fixed page.\<close>

definition fallback_html :: string where
  \<open>fallback_html =
     ''<!DOCTYPE html>\<newline><html>\<newline><head>\<newline>    <title>LLM API Proxy Admin</title>\<newline>'' @
     ''    <meta charset="utf-8">\<newline>'' @
     ''    <meta name="viewport" content="width=device-width, initial-scale=1">\<newline>'' @
     ''</head>\<newline><body>\<newline>    <div id="app">\<newline>        <h1>LLM API Proxy Admin</h1>\<newline>'' @
     ''        <p>Admin interface is available but the admin.html file could not be loaded.</p>\<newline>'' @
     ''        <p>Please check the worker configuration or serve the admin interface from a CDN.</p>\<newline>'' @
     ''    </div>\<newline></body>\<newline></html>''\<close>

definition serveAdminInterface_d ::
  "platform \<Rightarrow> env \<Rightarrow> out_request list \<Rightarrow> (string + response) \<times> out_request list" where
  "serveAdminInterface_d pf e calls =
     (let adminHtmlPath = (case str_or (ADMIN_HTML_PATH e) None of
                             None \<Rightarrow> ''src/admin.html'' | Some p \<Rightarrow> p);
          page = \<lparr>oq_url = adminHtmlPath, oq_method = ''GET'', oq_headers = [], oq_body = NoBody\<rparr>;
          html = (case pf_fetch pf page of
                    Inl msg \<Rightarrow> TextBody fallback_html
                  | Inr response \<Rightarrow>
                      if response_ok response then rs_body response else TextBody fallback_html)
      in (Inr \<lparr>rs_status = 200, rs_statusText = [], rs_headers = admin_headers, rs_body = html\<rparr>,
          calls @ [page]))"

definition verifyAdminAuth_d :: "request \<Rightarrow> env \<Rightarrow> bool" where
  "verifyAdminAuth_d req e =
     (case hget ''authorization'' (rq_headers req) of
        None \<Rightarrow> False
      | Some authHeader \<Rightarrow>
          if authHeader = [] then False
          else let token = replace_first ''Bearer '' [] authHeader
               in if token = [] then False
                  else (Some token = ADMIN_PASSWORD e \<or> token = ''admin-token''))"

definition handleAdminApi_d ::
  "platform \<Rightarrow> request \<Rightarrow> clock \<Rightarrow> storage world \<Rightarrow> (string + response) \<times> storage world" where
  "handleAdminApi_d pf req clk w =
     (let pathname = replace_first ''/admin'' [] (rq_pathname req)
      in if pathname = ''/test-connection'' \<and> rq_method req = ''POST'' then
           (let (res, calls) = handleTestConnection pf req (w_calls w)
            in (res, w\<lparr>w_calls := calls\<rparr>))
         else
           (let (res, st) = storage_fetch pf (req\<lparr>rq_pathname := ''/api/storage'' @ pathname\<rparr>)
                              clk (w_store w)
            in (res, w\<lparr>w_store := st\<rparr>)))"

text \<open>
  \<^verbatim>\<open>getTargetApiUrl\<close>: the header, then the stored configuration asked from the durable
  object (whatever is thrown there is caught), then the environment.
\<close>

definition getTargetApiUrl_d ::
  "platform \<Rightarrow> request \<Rightarrow> env \<Rightarrow> clock \<Rightarrow> storage \<Rightarrow> string \<times> storage" where
  "getTargetApiUrl_d pf req e clk st =
     (case str_or (hget ''x-target-api-url'' (rq_headers req)) None of
        Some targetApiUrlHeader \<Rightarrow> (strip_slash targetApiUrlHeader, st)
      | None \<Rightarrow>
          (let (res, st1) = storage_fetch pf (stub_request ''GET'' ''/api/storage/config'' [] NoBody)
                              clk st
           in (case res of
                 Inl msg \<Rightarrow> (static_target e, st1)
               | Inr configResponse \<Rightarrow>
                   if response_ok configResponse then
                     (case body_json (rs_body configResponse) of
                        None \<Rightarrow> (static_target e, st1)
                      | Some config \<Rightarrow>
                          (case property ''targetApiUrl'' config of
                             Some (JStr u) \<Rightarrow>
                               if u = [] then (static_target e, st1) else (strip_slash u, st1)
                           | _ \<Rightarrow> (static_target e, st1)))
                   else (static_target e, st1))))"

text \<open>\<^verbatim>\<open>logRequest\<close>: one POST to the durable object; its answer and its failure are dropped.\<close>

definition logRequest_d :: "platform \<Rightarrow> logData \<Rightarrow> clock \<Rightarrow> storage \<Rightarrow> storage" where
  "logRequest_d pf d clk st =
     snd (storage_fetch pf
            (stub_request ''POST'' ''/api/storage/logs'' [(''content-type'', ''application/json'')]
               (JsonBody (logData_json d)))
            clk st)"

text \<open>
  The three endpoint handlers differ in the endpoint only. The \<^verbatim>\<open>catch\<close> branch logs
  status 500 and throws the exception again.
\<close>

definition handleEndpoint_d ::
  "string \<Rightarrow> platform \<Rightarrow> request \<Rightarrow> env \<Rightarrow> clock \<Rightarrow> storage world \<Rightarrow> (string + response) \<times> storage world" where
  "handleEndpoint_d endpoint pf req e clk w =
     (let (targetApiUrl, st1) = getTargetApiUrl_d pf req e clk (w_store w);
          targetUrl = targetApiUrl @ endpoint;
          (res, calls) = forwardRequest pf req targetUrl e (w_calls w);
          duration = t_end clk - t_start clk
      in (case res of
            Inr response \<Rightarrow>
              (let st2 = logRequest_d pf
                           \<lparr>ld_endpoint = endpoint, ld_targetApi = targetApiUrl,
                            ld_status = rs_status response, ld_duration = duration,
                            ld_timestamp = iso_handler clk, ld_error = None\<rparr> clk st1
               in (Inr response, \<lparr>w_store = st2, w_calls = calls\<rparr>))
          | Inl msg \<Rightarrow>
              (let (targetApi, st2) = getTargetApiUrl_d pf req e clk st1;
                   st3 = logRequest_d pf
                           \<lparr>ld_endpoint = endpoint, ld_targetApi = targetApi,
                            ld_status = 500, ld_duration = duration,
                            ld_timestamp = iso_handler clk, ld_error = Some msg\<rparr> clk st2
               in (Inl msg, \<lparr>w_store = st3, w_calls = calls\<rparr>))))"

definition handleChatCompletion_d ::
  "platform \<Rightarrow> request \<Rightarrow> env \<Rightarrow> clock \<Rightarrow> storage world \<Rightarrow> (string + response) \<times> storage world" where
  "handleChatCompletion_d = handleEndpoint_d ''/v1/chat/completions''"

definition handleCompletions_d ::
  "platform \<Rightarrow> request \<Rightarrow> env \<Rightarrow> clock \<Rightarrow> storage world \<Rightarrow> (string + response) \<times> storage world" where
  "handleCompletions_d = handleEndpoint_d ''/v1/completions''"

definition handleEmbeddings_d ::
  "platform \<Rightarrow> request \<Rightarrow> env \<Rightarrow> clock \<Rightarrow> storage world \<Rightarrow> (string + response) \<times> storage world" where
  "handleEmbeddings_d = handleEndpoint_d ''/v1/embeddings''"

text \<open>The \<^verbatim>\<open>try\<close> block of \<^verbatim>\<open>fetch\<close>, and \<^verbatim>\<open>fetch\<close> with its \<^verbatim>\<open>catch\<close>.\<close>

definition route_d ::
  "platform \<Rightarrow> request \<Rightarrow> env \<Rightarrow> clock \<Rightarrow> storage world \<Rightarrow> (string + response) \<times> storage world" where
  "route_d pf req e clk w =
     (let pathname = rq_pathname req
      in if insecure_in_production req e then (Inr (text_response 403 ''Please use HTTPS''), w)
         else if startsWith pathname ''/api/storage'' then
           (let (res, st) = handleStorageRequest pf req clk (w_store w)
            in (res, w\<lparr>w_store := st\<rparr>))
         else if pathname = ''/admin'' \<or> pathname = ''/admin/'' then
           (let (res, calls) = serveAdminInterface_d pf e (w_calls w)
            in (res, w\<lparr>w_calls := calls\<rparr>))
         else if startsWith pathname ''/admin/'' then
           (if \<not> verifyAdminAuth_d req e then (Inr unauthorized, w)
            else handleAdminApi_d pf req clk w)
         else if rq_method req = ''OPTIONS'' then (Inr (handleOptions req), w)
         else if rq_method req \<noteq> ''POST'' \<and> rq_method req \<noteq> ''GET'' then
           (Inr (json_response 405 (JObj [(''error'', JStr ''Method not allowed'')])), w)
         else if rq_method req = ''GET'' then
           (if pathname = ''/'' \<or> pathname = ''/health'' then (Inr health_response, w)
            else (Inr (json_response 404 (JObj [(''error'', JStr ''Not found'')])), w))
         else if pathname = ''/v1/chat/completions'' then handleChatCompletion_d pf req e clk w
         else if pathname = ''/v1/completions'' then handleCompletions_d pf req e clk w
         else if pathname = ''/v1/embeddings'' then handleEmbeddings_d pf req e clk w
         else (Inr (json_response 404 (JObj [(''error'', JStr ''Endpoint not found'')])), w))"

definition fetch_d ::
  "platform \<Rightarrow> request \<Rightarrow> env \<Rightarrow> clock \<Rightarrow> storage world \<Rightarrow> response \<times> storage world" where
  "fetch_d pf req e clk w =
     (case route_d pf req e clk w of
        (Inr response, w1) \<Rightarrow> (response, w1)
      | (Inl msg, w1) \<Rightarrow> (internal_error msg, w1))"

section \<open>The worker over the in-memory store\<close>

record counters =
  cn_totalRequests :: int
  cn_successfulRequests :: int
  cn_totalDuration :: int

record memoryStorage =
  ms_config :: "(string \<times> json) list"
  ms_logs :: "json list"
  ms_stats :: counters

definition invalid_json :: response where
  "invalid_json = json_response 400 (JObj [(''error'', JStr ''Invalid JSON'')])"

definition handleConfig_m :: "request \<Rightarrow> clock \<Rightarrow> memoryStorage \<Rightarrow> response \<times> memoryStorage" where
  "handleConfig_m req clk ms =
     (if rq_method req = ''GET'' then (json_response 200 (JObj (ms_config ms)), ms)
      else if rq_method req = ''POST'' then
        (case body_json (rq_body req) of
           None \<Rightarrow> (invalid_json, ms)
         | Some data \<Rightarrow>
             if data = JNull then (invalid_json, ms)
             else if truthy_opt (property ''targetApiUrl'' data)
                     \<and> \<not> is_string (property ''targetApiUrl'' data)
             then (json_response 400 (JObj [(''error'', JStr ''Invalid targetApiUrl'')]), ms)
             else if truthy_opt (property ''adminPassword'' data)
                     \<and> \<not> is_string (property ''adminPassword'' data)
             then (json_response 400 (JObj [(''error'', JStr ''Invalid adminPassword'')]), ms)
             else
               let newConfig = object_of (ms_config ms @ own_props data
                                          @ [(''updatedAt'', JStr (iso_store clk))])
               in (json_response 200 (JObj newConfig), ms\<lparr>ms_config := newConfig\<rparr>))
      else (text_response 405 ''Method not allowed'', ms))"

definition handleLogs_m :: "request \<Rightarrow> clock \<Rightarrow> memoryStorage \<Rightarrow> response \<times> memoryStorage" where
  "handleLogs_m req clk ms =
     (if rq_method req = ''GET'' then
        (json_response 200 (JArr (slice_from (- limit_param req) (ms_logs ms))), ms)
      else if rq_method req = ''POST'' then
        (case body_json (rq_body req) of
           None \<Rightarrow> (invalid_json, ms)
         | Some logData \<Rightarrow>
             if logData = JNull then (invalid_json, ms)
             else if \<not> truthy_opt (property ''endpoint'' logData)
                     \<or> \<not> truthy_opt (property ''timestamp'' logData)
             then (json_response 400 (JObj [(''error'', JStr ''Missing required fields'')]), ms)
             else
               let newLog = make_log (new_id clk) logData (iso_store clk)
               in (json_response 200 newLog, ms\<lparr>ms_logs := push_capped newLog (ms_logs ms)\<rparr>))
      else if rq_method req = ''DELETE'' then
        (json_response 200 (JObj [(''message'', JStr ''Logs cleared'')]), ms\<lparr>ms_logs := []\<rparr>)
      else (text_response 405 ''Method not allowed'', ms))"

definition handleStats_m :: "platform \<Rightarrow> request \<Rightarrow> memoryStorage \<Rightarrow> response \<times> memoryStorage" where
  "handleStats_m pf req ms =
     (if rq_method req = ''GET'' then
        (let total = cn_totalRequests (ms_stats ms);
             successful = cn_successfulRequests (ms_stats ms);
             successRate = (if total > 0 then pf_roundPercent pf successful total else JNum 0);
             avgResponseTime = (if total > 0
                                then pf_roundQuotient pf (cn_totalDuration (ms_stats ms)) total
                                else JNum 0);
             stats = JObj [(''totalRequests'', JNum total),
                           (''successRate'', successRate),
                           (''avgResponseTime'', avgResponseTime),
                           (''currentTarget'', or_null (map_of (ms_config ms) ''targetApiUrl'')),
                           (''lastUpdated'', or_null (map_of (ms_config ms) ''updatedAt''))]
         in (json_response 200 stats, ms))
      else (text_response 405 ''Method not allowed'', ms))"

definition handleAdminApi_m ::
  "platform \<Rightarrow> request \<Rightarrow> clock \<Rightarrow> memoryStorage world \<Rightarrow> (string + response) \<times> memoryStorage world" where
  "handleAdminApi_m pf req clk w =
     (let pathname = replace_first ''/admin'' [] (rq_pathname req)
      in if pathname = ''/test-connection'' \<and> rq_method req = ''POST'' then
           (let (res, calls) = handleTestConnection pf req (w_calls w)
            in (res, w\<lparr>w_calls := calls\<rparr>))
         else if pathname = ''/config'' then
           (let (r, ms) = handleConfig_m req clk (w_store w) in (Inr r, w\<lparr>w_store := ms\<rparr>))
         else if startsWith pathname ''/logs'' then
           (let (r, ms) = handleLogs_m req clk (w_store w) in (Inr r, w\<lparr>w_store := ms\<rparr>))
         else if pathname = ''/stats'' then
           (let (r, ms) = handleStats_m pf req (w_store w) in (Inr r, w\<lparr>w_store := ms\<rparr>))
         else (Inr (json_response 404 (JObj [(''error'', JStr ''Endpoint not found'')])), w))"

text \<open>The check of this variant always approves.\<close>

definition verifyAdminAuth_m :: "request \<Rightarrow> env \<Rightarrow> bool" where
  "verifyAdminAuth_m req e = True"

definition serveAdminInterface_m :: "platform \<Rightarrow> response" where
  "serveAdminInterface_m pf =
     \<lparr>rs_status = 200, rs_statusText = [], rs_headers = admin_headers,
      rs_body = TextBody (pf_adminHtml pf)\<rparr>"

text \<open>
  \<^verbatim>\<open>getTargetApiUrl\<close> reads the configuration in memory; \<^verbatim>\<open>.replace\<close> on a stored value
  that is truthy and not a string throws.
\<close>

definition not_a_function :: string where
  "not_a_function = ''replace is not a function''"

definition getTargetApiUrl_m :: "request \<Rightarrow> env \<Rightarrow> memoryStorage \<Rightarrow> string + string" where
  "getTargetApiUrl_m req e ms =
     (case str_or (hget ''x-target-api-url'' (rq_headers req)) None of
        Some targetApiUrlHeader \<Rightarrow> Inr (strip_slash targetApiUrlHeader)
      | None \<Rightarrow>
          (case map_of (ms_config ms) ''targetApiUrl'' of
             None \<Rightarrow> Inr (static_target e)
           | Some v \<Rightarrow>
               if truthy v then
                 (case v of JStr u \<Rightarrow> Inr (strip_slash u) | _ \<Rightarrow> Inl not_a_function)
               else Inr (static_target e)))"

definition logRequest_m :: "logData \<Rightarrow> clock \<Rightarrow> memoryStorage \<Rightarrow> memoryStorage" where
  "logRequest_m d clk ms =
     (let newLog = make_log (new_id clk) (logData_json d) (iso_store clk);
          stats = ms_stats ms
      in ms\<lparr>ms_logs := push_capped newLog (ms_logs ms),
            ms_stats :=
              \<lparr>cn_totalRequests = cn_totalRequests stats + 1,
               cn_successfulRequests =
                 (if 200 \<le> ld_status d \<and> ld_status d < 300 then cn_successfulRequests stats + 1
                  else cn_successfulRequests stats),
               cn_totalDuration =
                 cn_totalDuration stats + (if ld_duration d = 0 then 0 else ld_duration d)\<rparr>\<rparr>)"

definition handleEndpoint_m ::
  "string \<Rightarrow> platform \<Rightarrow> request \<Rightarrow> env \<Rightarrow> clock \<Rightarrow> memoryStorage world
     \<Rightarrow> (string + response) \<times> memoryStorage world" where
  "handleEndpoint_m endpoint pf req e clk w =
     (let duration = t_end clk - t_start clk
      in (case getTargetApiUrl_m req e (w_store w) of
            Inl msg \<Rightarrow> (Inl msg, w)
          | Inr targetApiUrl \<Rightarrow>
              (let (res, calls) = forwardRequest pf req (targetApiUrl @ endpoint) e (w_calls w)
               in (case res of
                     Inr response \<Rightarrow>
                       (Inr response,
                        \<lparr>w_store = logRequest_m
                                     \<lparr>ld_endpoint = endpoint, ld_targetApi = targetApiUrl,
                                      ld_status = rs_status response, ld_duration = duration,
                                      ld_timestamp = iso_handler clk, ld_error = None\<rparr>
                                     clk (w_store w),
                         w_calls = calls\<rparr>)
                   | Inl msg \<Rightarrow>
                       (Inl msg,
                        \<lparr>w_store = logRequest_m
                                     \<lparr>ld_endpoint = endpoint, ld_targetApi = targetApiUrl,
                                      ld_status = 500, ld_duration = duration,
                                      ld_timestamp = iso_handler clk, ld_error = Some msg\<rparr>
                                     clk (w_store w),
                         w_calls = calls\<rparr>)))))"

definition handleChatCompletion_m ::
  "platform \<Rightarrow> request \<Rightarrow> env \<Rightarrow> clock \<Rightarrow> memoryStorage world
     \<Rightarrow> (string + response) \<times> memoryStorage world" where
  "handleChatCompletion_m = handleEndpoint_m ''/v1/chat/completions''"

definition handleCompletions_m ::
  "platform \<Rightarrow> request \<Rightarrow> env \<Rightarrow> clock \<Rightarrow> memoryStorage world
     \<Rightarrow> (string + response) \<times> memoryStorage world" where
  "handleCompletions_m = handleEndpoint_m ''/v1/completions''"

definition handleEmbeddings_m ::
  "platform \<Rightarrow> request \<Rightarrow> env \<Rightarrow> clock \<Rightarrow> memoryStorage world
     \<Rightarrow> (string + response) \<times> memoryStorage world" where
  "handleEmbeddings_m = handleEndpoint_m ''/v1/embeddings''"

definition route_m ::
  "platform \<Rightarrow> request \<Rightarrow> env \<Rightarrow> clock \<Rightarrow> memoryStorage world
     \<Rightarrow> (string + response) \<times> memoryStorage world" where
  "route_m pf req e clk w =
     (let pathname = rq_pathname req
      in if insecure_in_production req e then (Inr (text_response 403 ''Please use HTTPS''), w)
         else if pathname = ''/admin'' \<or> pathname = ''/admin/'' then
           (Inr (serveAdminInterface_m pf), w)
         else if startsWith pathname ''/admin/'' then
           (if \<not> verifyAdminAuth_m req e then (Inr unauthorized, w)
            else handleAdminApi_m pf req clk w)
         else if rq_method req = ''OPTIONS'' then (Inr (handleOptions req), w)
         else if rq_method req \<noteq> ''POST'' \<and> rq_method req \<noteq> ''GET'' then
           (Inr (json_response 405 (JObj [(''error'', JStr ''Method not allowed'')])), w)
         else if rq_method req = ''GET'' then
           (if pathname = ''/'' \<or> pathname = ''/health'' then (Inr health_response, w)
            else (Inr (json_response 404 (JObj [(''error'', JStr ''Not found'')])), w))
         else if pathname = ''/v1/chat/completions'' then handleChatCompletion_m pf req e clk w
         else if pathname = ''/v1/completions'' then handleCompletions_m pf req e clk w
         else if pathname = ''/v1/embeddings'' then handleEmbeddings_m pf req e clk w
         else (Inr (json_response 404 (JObj [(''error'', JStr ''Endpoint not found'')])), w))"

definition fetch_m ::
  "platform \<Rightarrow> request \<Rightarrow> env \<Rightarrow> clock \<Rightarrow> memoryStorage world \<Rightarrow> response \<times> memoryStorage world" where
  "fetch_m pf req e clk w =
     (case route_m pf req e clk w of
        (Inr response, w1) \<Rightarrow> (response, w1)
      | (Inl msg, w1) \<Rightarrow> (internal_error msg, w1))"

section \<open>Notions used in the statements\<close>

text \<open>The \<open>n\<close> most recent entries of a log, in their order of insertion.\<close>

definition most_recent :: "nat \<Rightarrow> 'a list \<Rightarrow> 'a list" where
  "most_recent n xs = drop (length xs - n) xs"

text \<open>The entries \<^verbatim>\<open>addLog\<close> accepts: not \<^verbatim>\<open>null\<close>, with an endpoint and a timestamp.\<close>

definition log_accepted :: "json \<Rightarrow> bool" where
  "log_accepted d =
     (d \<noteq> JNull \<and> truthy_opt (property ''endpoint'' d) \<and> truthy_opt (property ''timestamp'' d))"

text \<open>The updates \<^verbatim>\<open>setConfig\<close> rejects with status 400.\<close>

definition config_rejected :: "json \<Rightarrow> bool" where
  "config_rejected data =
     ((truthy_opt (property ''targetApiUrl'' data) \<and> \<not> is_string (property ''targetApiUrl'' data))
      \<or> (truthy_opt (property ''adminPassword'' data) \<and> \<not> is_string (property ''adminPassword'' data)))"

text \<open>A run of \<^verbatim>\<open>addLog\<close> calls on the durable store, and the entries it inserts.\<close>

fun addLog_run :: "(json \<times> clock) list \<Rightarrow> storage \<Rightarrow> storage" where
  "addLog_run [] st = st"
| "addLog_run ((d, clk) # calls) st = addLog_run calls (snd (addLog d clk st))"

definition inserted :: "(json \<times> clock) list \<Rightarrow> json list" where
  "inserted calls =
     map (\<lambda>(d, clk). make_log (new_id clk) d (iso_store clk))
       (filter (\<lambda>(d, clk). log_accepted d) calls)"

text \<open>
  The same for the in-memory store, where an entry comes from a POST to the admin logs
  route or from \<^verbatim>\<open>logRequest\<close>.
\<close>

datatype append_call = AdminPost json clock | HandlerLog logData clock

definition post_logs_request :: "json \<Rightarrow> request" where
  "post_logs_request d =
     \<lparr>rq_method = ''POST'', rq_protocol = ''https:'', rq_pathname = ''/admin/logs'', rq_query = [],
      rq_headers = [(''content-type'', ''application/json'')], rq_body = JsonBody d\<rparr>"

fun append_m :: "append_call \<Rightarrow> memoryStorage \<Rightarrow> memoryStorage" where
  "append_m (AdminPost d clk) ms = snd (handleLogs_m (post_logs_request d) clk ms)"
| "append_m (HandlerLog d clk) ms = logRequest_m d clk ms"

fun append_run_m :: "append_call list \<Rightarrow> memoryStorage \<Rightarrow> memoryStorage" where
  "append_run_m [] ms = ms"
| "append_run_m (c # calls) ms = append_run_m calls (append_m c ms)"

fun inserted_m :: "append_call list \<Rightarrow> json list" where
  "inserted_m [] = []"
| "inserted_m (AdminPost d clk # calls) =
     (if log_accepted d then make_log (new_id clk) d (iso_store clk) # inserted_m calls
      else inserted_m calls)"
| "inserted_m (HandlerLog d clk # calls) =
     make_log (new_id clk) (logData_json d) (iso_store clk) # inserted_m calls"

text \<open>The requests of the in-memory admin routes and of the store that the statements use.\<close>

definition post_config_request :: "json \<Rightarrow> request" where
  "post_config_request d =
     \<lparr>rq_method = ''POST'', rq_protocol = ''https:'', rq_pathname = ''/admin/config'', rq_query = [],
      rq_headers = [(''content-type'', ''application/json'')], rq_body = JsonBody d\<rparr>"

definition get_logs_request :: "(string \<times> string) list \<Rightarrow> request" where
  "get_logs_request q =
     \<lparr>rq_method = ''GET'', rq_protocol = ''https:'', rq_pathname = ''/logs'', rq_query = q,
      rq_headers = [], rq_body = NoBody\<rparr>"

definition get_stats_request :: request where
  "get_stats_request = stub_request ''GET'' ''/admin/stats'' [] NoBody"

text \<open>What a preflight answer to a request carries.\<close>

definition cors_preflight :: "request \<Rightarrow> response \<Rightarrow> bool" where
  "cors_preflight req r =
     (hget ''access-control-allow-methods'' (rs_headers r) = Some ''GET, POST, PUT, DELETE, OPTIONS''
      \<and> hget ''access-control-allow-origin'' (rs_headers r) = Some ''*''
      \<and> hget ''access-control-allow-headers'' (rs_headers r) =
          Some (case hget ''access-control-request-headers'' (rq_headers req) of
                  None \<Rightarrow> ''*'' | Some h \<Rightarrow> if h = [] then ''*'' else h))"

text \<open>
  The store operations as requests: to the durable object on its own paths, to the
  in-memory variant on the admin routes. A run collects the answers.
\<close>

datatype store_op =
    GetConfig | SetConfig json | AppendLog json | GetLogs "(string \<times> string) list" | ClearLogs

fun op_request :: "store_op \<Rightarrow> request" where
  "op_request GetConfig = stub_request ''GET'' ''/config'' [] NoBody"
| "op_request (SetConfig d) =
     stub_request ''POST'' ''/config'' [(''content-type'', ''application/json'')] (JsonBody d)"
| "op_request (AppendLog d) =
     stub_request ''POST'' ''/logs'' [(''content-type'', ''application/json'')] (JsonBody d)"
| "op_request (GetLogs q) = (stub_request ''GET'' ''/logs'' [] NoBody)\<lparr>rq_query := q\<rparr>"
| "op_request ClearLogs = stub_request ''DELETE'' ''/logs'' [] NoBody"

fun op_valid :: "store_op \<Rightarrow> bool" where
  "op_valid (SetConfig d) = (d \<noteq> JNull)"
| "op_valid (AppendLog d) = (d \<noteq> JNull)"
| "op_valid x = True"

definition op_d :: "platform \<Rightarrow> store_op \<Rightarrow> clock \<Rightarrow> storage \<Rightarrow> (string + response) \<times> storage" where
  "op_d pf x clk st = storage_fetch pf (op_request x) clk st"

definition op_m ::
  "platform \<Rightarrow> store_op \<Rightarrow> clock \<Rightarrow> memoryStorage \<Rightarrow> (string + response) \<times> memoryStorage" where
  "op_m pf x clk ms =
     (let (res, w) = handleAdminApi_m pf
                       ((op_request x)\<lparr>rq_pathname := ''/admin'' @ rq_pathname (op_request x)\<rparr>)
                       clk \<lparr>w_store = ms, w_calls = []\<rparr>
      in (res, w_store w))"

fun run_d :: "platform \<Rightarrow> (store_op \<times> clock) list \<Rightarrow> storage \<Rightarrow> (string + response) list \<times> storage" where
  "run_d pf [] st = ([], st)"
| "run_d pf ((x, clk) # xs) st =
     (let (r, st1) = op_d pf x clk st; (rs, st2) = run_d pf xs st1 in (r # rs, st2))"

fun run_m ::
  "platform \<Rightarrow> (store_op \<times> clock) list \<Rightarrow> memoryStorage \<Rightarrow> (string + response) list \<times> memoryStorage" where
  "run_m pf [] ms = ([], ms)"
| "run_m pf ((x, clk) # xs) ms =
     (let (r, ms1) = op_m pf x clk ms; (rs, ms2) = run_m pf xs ms1 in (r # rs, ms2))"

definition same_state :: "storage \<Rightarrow> memoryStorage \<Rightarrow> bool" where
  "same_state st ms = (stored_config st = ms_config ms \<and> stored_logs st = ms_logs ms)"

definition stats_total :: "response \<Rightarrow> json option" where
  "stats_total r = (case rs_body r of JsonBody v \<Rightarrow> property ''totalRequests'' v | _ \<Rightarrow> None)"

section \<open>Sample inputs\<close>

definition sample_clock :: clock where
  "sample_clock =
     \<lparr>t_start = 1000, t_end = 1042, iso_handler = ''2026-01-01T00:00:01.042Z'',
      iso_store = ''2026-01-01T00:00:01.043Z'', new_id = ''mjx3k2a0b1c2d''\<rparr>"

definition sample_entry :: json where
  "sample_entry = JObj [(''endpoint'', JStr ''/v1/embeddings''), (''timestamp'', JStr ''then''),
                        (''status'', JNum 200)]"

definition sample_logData :: logData where
  "sample_logData =
     \<lparr>ld_endpoint = ''/v1/chat/completions'', ld_targetApi = ''https://api.openai.com'',
      ld_status = 200, ld_duration = 42, ld_timestamp = ''2026-01-01T00:00:01.042Z'',
      ld_error = None\<rparr>"

definition empty_store :: storage where
  "empty_store = \<lparr>st_config = None, st_logs = None\<rparr>"

definition full_store :: storage where
  "full_store = \<lparr>st_config = None, st_logs = Some (replicate 1000 JNull)\<rparr>"

definition empty_memory :: memoryStorage where
  "empty_memory =
     \<lparr>ms_config = [], ms_logs = [],
      ms_stats = \<lparr>cn_totalRequests = 0, cn_successfulRequests = 0, cn_totalDuration = 0\<rparr>\<rparr>"

definition full_memory :: memoryStorage where
  "full_memory = empty_memory\<lparr>ms_logs := replicate 1000 JNull\<rparr>"

definition three_logs :: storage where
  "three_logs = \<lparr>st_config = None, st_logs = Some [JStr ''first'', JStr ''second'', JStr ''third'']\<rparr>"

definition three_logs_m :: memoryStorage where
  "three_logs_m = empty_memory\<lparr>ms_logs := [JStr ''first'', JStr ''second'', JStr ''third'']\<rparr>"

definition configured_store :: storage where
  "configured_store =
     \<lparr>st_config = Some [(''targetApiUrl'', JStr ''https://llm.example.com/''),
                        (''updatedAt'', JStr ''2026-01-01T00:00:00.000Z'')],
      st_logs = None\<rparr>"

definition configured_memory :: memoryStorage where
  "configured_memory =
     empty_memory\<lparr>ms_config := [(''targetApiUrl'', JStr ''https://llm.example.com/''),
                                 (''updatedAt'', JStr ''2026-01-01T00:00:00.000Z'')]\<rparr>"

definition sample_env :: env where
  "sample_env =
     \<lparr>ENVIRONMENT = Some ''production'', ADMIN_PASSWORD = Some ''s3cret'', ADMIN_HTML_PATH = None,
      TARGET_API_URL = None, TARGET_API_KEY = Some ''sk-upstream'', DEBUG = False\<rparr>"

text \<open>An upstream that cannot be reached, one that answers 401, one that answers 200.\<close>

definition platform_down :: platform where
  "platform_down =
     \<lparr>pf_fetch = (\<lambda>q. Inl ''connection refused''), pf_adminHtml = ''<html></html>'',
      pf_successRate = (\<lambda>logs. JNum 100), pf_avgResponseTime = (\<lambda>logs. JNum 42),
      pf_roundPercent = (\<lambda>s t. JNum 100), pf_roundQuotient = (\<lambda>d t. JNum 42)\<rparr>"

definition platform_up :: platform where
  "platform_up =
     platform_down\<lparr>pf_fetch := (\<lambda>q. Inr (json_response 401 (JObj [(''error'', JStr ''no key'')])))\<rparr>"

definition platform_ok :: platform where
  "platform_ok =
     platform_down\<lparr>pf_fetch := (\<lambda>q. Inr \<lparr>rs_status = 200, rs_statusText = ''OK'',
        rs_headers = [(''content-type'', ''application/json'')],
        rs_body = JsonBody (JObj [(''id'', JStr ''chatcmpl-1'')])\<rparr>)\<rparr>"

definition sample_request :: "string \<Rightarrow> string \<Rightarrow> (string \<times> string) list \<Rightarrow> body \<Rightarrow> request" where
  "sample_request m path hs b =
     \<lparr>rq_method = m, rq_protocol = ''https:'', rq_pathname = path, rq_query = [],
      rq_headers = hs, rq_body = b\<rparr>"

definition chat_request :: request where
  "chat_request =
     sample_request ''POST'' ''/v1/chat/completions'' [(''content-type'', ''application/json'')]
       (JsonBody (JObj [(''model'', JStr ''gpt-3.5-turbo'')]))"

definition fresh_world :: "storage world" where
  "fresh_world = \<lparr>w_store = empty_store, w_calls = []\<rparr>"

definition fresh_world_m :: "memoryStorage world" where
  "fresh_world_m = \<lparr>w_store = empty_memory, w_calls = []\<rparr>"

section \<open>Objects and logs\<close>

lemma map_of_obj_set:
  "map_of (obj_set k v kvs) k' = (if k' = k then Some v else map_of kvs k')"
  by (induction kvs) auto

lemma keys_obj_set:
  "map fst (obj_set k v kvs) = (if k \<in> set (map fst kvs) then map fst kvs else map fst kvs @ [k])"
  by (induction kvs) (auto simp: rev_image_eqI)

lemma distinct_obj_set:
  "distinct (map fst kvs) \<Longrightarrow> distinct (map fst (obj_set k v kvs))"
  by (simp add: keys_obj_set)

lemma foldl_obj_set_distinct:
  "distinct (map fst acc) \<Longrightarrow>
   distinct (map fst (foldl (\<lambda>obj (k, v). obj_set k v obj) acc kvs))"
  by (induction kvs arbitrary: acc) (auto simp: distinct_obj_set)

lemma object_of_distinct: "distinct (map fst (object_of kvs))"
  by (simp add: object_of_def foldl_obj_set_distinct)

lemma map_of_foldl_obj_set:
  "map_of (foldl (\<lambda>obj (k, v). obj_set k v obj) acc kvs) k' =
     (case map_of (rev kvs) k' of Some v \<Rightarrow> Some v | None \<Rightarrow> map_of acc k')"
  by (induction kvs arbitrary: acc) (auto simp: map_of_obj_set map_add_def split: option.splits)

lemma map_of_object_of: "map_of (object_of kvs) k = map_of (rev kvs) k"
  by (simp add: object_of_def map_of_foldl_obj_set split: option.splits)

lemma map_of_rev_distinct: "distinct (map fst kvs) \<Longrightarrow> map_of (rev kvs) = map_of kvs"
proof (induction kvs)
  case Nil
  then show ?case by simp
next
  case (Cons x kvs)
  obtain a b where x: "x = (a, b)" by (cases x)
  from Cons.prems x have "map_of kvs a = None"
    by (simp add: map_of_eq_None_iff)
  with Cons x show ?case
    by (auto simp: map_add_def fun_eq_iff split: option.splits)
qed

lemma most_recent_append_left:
  "most_recent n (most_recent n xs @ ys) = most_recent n (xs @ ys)"
  by (cases "n \<le> length xs") (simp_all add: most_recent_def add.commute)

lemma push_capped_most_recent: "push_capped e logs = most_recent 1000 (logs @ [e])"
  by (simp add: push_capped_def most_recent_def Let_def)

lemma most_recent_length: "length (most_recent n xs) \<le> n"
  by (simp add: most_recent_def)

lemma most_recent_all: "length xs \<le> n \<Longrightarrow> most_recent n xs = xs"
  by (simp add: most_recent_def)

lemma addLog_logs:
  "stored_logs (snd (addLog d clk st)) =
     (if log_accepted d then push_capped (make_log (new_id clk) d (iso_store clk)) (stored_logs st)
      else stored_logs st)"
  by (simp add: addLog_def log_accepted_def stored_logs_def Let_def)

lemma handleLogs_m_post_logs:
  "ms_logs (snd (handleLogs_m (post_logs_request d) clk ms)) =
     (if log_accepted d then push_capped (make_log (new_id clk) d (iso_store clk)) (ms_logs ms)
      else ms_logs ms)"
  by (simp add: handleLogs_m_def post_logs_request_def log_accepted_def Let_def)

lemma logRequest_m_logs:
  "ms_logs (logRequest_m d clk ms) =
     push_capped (make_log (new_id clk) (logData_json d) (iso_store clk)) (ms_logs ms)"
  by (simp add: logRequest_m_def Let_def)

text \<open>
  With the stored log the most recent 1000 of some history, each run of insertions leaves
  the most recent 1000 of the longer history.
\<close>

lemma addLog_run_logs:
  "stored_logs st = most_recent 1000 base \<Longrightarrow>
   stored_logs (addLog_run calls st) = most_recent 1000 (base @ inserted calls)"
proof (induction calls arbitrary: st base)
  case Nil
  then show ?case by (simp add: inserted_def)
next
  case (Cons c calls)
  obtain d clk where c: "c = (d, clk)" by (cases c)
  show ?case
  proof (cases "log_accepted d")
    case True
    have "stored_logs (snd (addLog d clk st)) =
            most_recent 1000 (base @ [make_log (new_id clk) d (iso_store clk)])"
      using True Cons.prems
      by (simp add: addLog_logs push_capped_most_recent most_recent_append_left)
    from Cons.IH [OF this] show ?thesis using True c by (simp add: inserted_def)
  next
    case False
    have "stored_logs (snd (addLog d clk st)) = most_recent 1000 base"
      using False Cons.prems by (simp add: addLog_logs)
    from Cons.IH [OF this] show ?thesis using False c by (simp add: inserted_def)
  qed
qed

lemma append_m_logs:
  "ms_logs ms = most_recent 1000 base \<Longrightarrow>
   ms_logs (append_m c ms) = most_recent 1000 (base @ inserted_m [c])"
  by (cases c)
    (simp_all add: handleLogs_m_post_logs logRequest_m_logs push_capped_most_recent
       most_recent_append_left)

lemma append_run_m_logs:
  "ms_logs ms = most_recent 1000 base \<Longrightarrow>
   ms_logs (append_run_m calls ms) = most_recent 1000 (base @ inserted_m calls)"
proof (induction calls arbitrary: ms base)
  case Nil
  then show ?case by simp
next
  case (Cons c calls)
  have step: "ms_logs (append_m c ms) = most_recent 1000 (base @ inserted_m [c])"
    using Cons.prems by (rule append_m_logs)
  have split: "inserted_m (c # calls) = inserted_m [c] @ inserted_m calls"
    by (cases c) simp_all
  from Cons.IH [OF step] show ?case by (simp add: split)
qed

section \<open>The bounded log\<close>

text \<open>
  Claim C3. Starting from a log of at most 1000 entries, after any run of append calls
  the stored log has at most 1000 entries and is exactly the most recent 1000 of the old
  entries followed by the inserted ones, in their order of insertion; rejected calls insert
  nothing. This holds for \<^verbatim>\<open>addLog\<close> of the durable store and, in the in-memory variant, for
  the POST of the admin logs route and for \<^verbatim>\<open>logRequest\<close>.
\<close>

theorem bounded_log:
  assumes "length (stored_logs st) \<le> 1000" and "length (ms_logs ms) \<le> 1000"
  shows "length (stored_logs (addLog_run calls st)) \<le> 1000
       \<and> stored_logs (addLog_run calls st) = most_recent 1000 (stored_logs st @ inserted calls)
       \<and> length (ms_logs (append_run_m calls_m ms)) \<le> 1000
       \<and> ms_logs (append_run_m calls_m ms) = most_recent 1000 (ms_logs ms @ inserted_m calls_m)"
proof -
  have d: "stored_logs (addLog_run calls st) = most_recent 1000 (stored_logs st @ inserted calls)"
    using assms(1) by (intro addLog_run_logs) (simp add: most_recent_all)
  have m: "ms_logs (append_run_m calls_m ms) = most_recent 1000 (ms_logs ms @ inserted_m calls_m)"
    using assms(2) by (intro append_run_m_logs) (simp add: most_recent_all)
  show ?thesis
    by (simp only: d m most_recent_length simp_thms)
qed

theorem bounded_log_witness:
  "length (stored_logs full_store) \<le> 1000 \<and> length (ms_logs full_memory) \<le> 1000
   \<and> length (stored_logs (addLog_run [(sample_entry, sample_clock)] full_store)) \<le> 1000
   \<and> stored_logs (addLog_run [(sample_entry, sample_clock)] full_store) =
       most_recent 1000 (stored_logs full_store @ inserted [(sample_entry, sample_clock)])
   \<and> length (ms_logs (append_run_m [HandlerLog sample_logData sample_clock] full_memory)) \<le> 1000
   \<and> ms_logs (append_run_m [HandlerLog sample_logData sample_clock] full_memory) =
       most_recent 1000 (ms_logs full_memory @ inserted_m [HandlerLog sample_logData sample_clock])"
proof -
  have h1: "length (stored_logs full_store) \<le> 1000"
    by (simp add: full_store_def stored_logs_def)
  have h2: "length (ms_logs full_memory) \<le> 1000"
    by (simp add: full_memory_def)
  from bounded_log [OF h1 h2] h1 h2 show ?thesis by blast
qed

section \<open>Paths and routes\<close>

lemma startsWith_take: "startsWith s p \<Longrightarrow> n \<le> length p \<Longrightarrow> take n s = take n p"
  by (metis startsWith_def take_take min.absorb1)

lemma admin_not_storage:
  assumes "startsWith p ''/admin/''"
  shows "\<not> startsWith p ''/api/storage''" and "p \<noteq> ''/admin''"
proof -
  from startsWith_take [OF assms, of 3] have a: "take 3 p = ''/ad''" by simp
  show "\<not> startsWith p ''/api/storage''"
  proof
    assume "startsWith p ''/api/storage''"
    from startsWith_take [OF this, of 3] a show False by simp
  qed
  from assms show "p \<noteq> ''/admin''" by (auto simp: startsWith_def)
qed

text \<open>
  The durable object answers 404 to every path under \<^verbatim>\<open>/api/\<close>: it routes on
  \<^verbatim>\<open>/config\<close>, \<^verbatim>\<open>/logs\<close> and \<^verbatim>\<open>/stats\<close>, and only \<^verbatim>\<open>handleStorageRequest\<close> removes the
  prefix before it calls the stub.
\<close>

lemma storage_fetch_prefixed:
  assumes m: "rq_method req \<noteq> ''OPTIONS''" and p: "startsWith (rq_pathname req) ''/api/''"
  shows "storage_fetch pf req clk st = (Inr (text_response 404 ''Not found''), st)"
proof -
  from startsWith_take [OF p, of 2] have t: "take 2 (rq_pathname req) = ''/a''" by simp
  have "\<not> startsWith (rq_pathname req) ''/config''"
    using startsWith_take [of "rq_pathname req" "''/config''" 2] t by auto
  moreover have "\<not> startsWith (rq_pathname req) ''/logs''"
    using startsWith_take [of "rq_pathname req" "''/logs''" 2] t by auto
  moreover have "\<not> startsWith (rq_pathname req) ''/stats''"
    using startsWith_take [of "rq_pathname req" "''/stats''" 2] t by auto
  ultimately show ?thesis using m by (simp add: storage_fetch_def)
qed

lemma logRequest_d_no_effect: "logRequest_d pf d clk st = st"
  by (simp add: logRequest_d_def storage_fetch_prefixed stub_request_def startsWith_def)

lemma getTargetApiUrl_d_ignores_store:
  "str_or (hget ''x-target-api-url'' (rq_headers req)) None = None \<Longrightarrow>
     getTargetApiUrl_d pf req e clk st = (static_target e, st)"
  by (simp add: getTargetApiUrl_d_def storage_fetch_prefixed stub_request_def startsWith_def
        response_ok_def text_response_def)

lemma getTargetApiUrl_header:
  "hget ''x-target-api-url'' (rq_headers req) = Some h \<Longrightarrow> h \<noteq> [] \<Longrightarrow>
     getTargetApiUrl_d pf req e clk st = (strip_slash h, st)
     \<and> getTargetApiUrl_m req e ms = Inr (strip_slash h)"
  by (simp add: getTargetApiUrl_d_def getTargetApiUrl_m_def)

lemma getTargetApiUrl_m_stored:
  "str_or (hget ''x-target-api-url'' (rq_headers req)) None = None \<Longrightarrow>
     getTargetApiUrl_m req e ms =
       (case map_of (ms_config ms) ''targetApiUrl'' of
          Some (JStr u) \<Rightarrow> if u = [] then Inr (static_target e) else Inr (strip_slash u)
        | Some v \<Rightarrow> if truthy v then Inl not_a_function else Inr (static_target e)
        | None \<Rightarrow> Inr (static_target e))"
  by (simp add: getTargetApiUrl_m_def split: option.splits json.splits)

lemma limit_param_pathname: "limit_param (req\<lparr>rq_pathname := p\<rparr>) = limit_param req"
  by (simp add: limit_param_def)

lemma cors_handleOptions: "cors_preflight req (handleOptions req)"
  by (simp add: cors_preflight_def handleOptions_def hget_def)

lemma cors_storage_handleOptions:
  "rq_headers req' = rq_headers req \<Longrightarrow> cors_preflight req (storage_handleOptions req')"
  by (simp add: cors_preflight_def storage_handleOptions_def hget_def)

lemmas parse_simps = parseInt_def is_space_def digit_of_def startsWith_def Let_def

section \<open>Admin authentication\<close>

text \<open>
  Claim C1, as amended. In the worker over the durable store, a request to an admin API
  route (a path under \<^verbatim>\<open>/admin/\<close> other than \<^verbatim>\<open>/admin/\<close> itself, past the HTTPS check)
  whose Authorization header is missing, or whose header with the first \<^verbatim>\<open>Bearer \<close>
  removed is empty or equals neither \<^verbatim>\<open>env.ADMIN_PASSWORD\<close> nor the literal
  \<^verbatim>\<open>admin-token\<close>, is answered with status 401, and neither the store nor the network is
  touched. The worker over the in-memory store dispatches every such request to the
  admin API.
\<close>

theorem admin_api_requires_token:
  assumes "\<not> insecure_in_production req e"
    and "startsWith (rq_pathname req) ''/admin/''" and "rq_pathname req \<noteq> ''/admin/''"
    and "case hget ''authorization'' (rq_headers req) of
           None \<Rightarrow> True
         | Some authHeader \<Rightarrow>
             replace_first ''Bearer '' [] authHeader = []
             \<or> (Some (replace_first ''Bearer '' [] authHeader) \<noteq> ADMIN_PASSWORD e
                \<and> replace_first ''Bearer '' [] authHeader \<noteq> ''admin-token'')"
  shows "fetch_d pf req e clk w = (unauthorized, w) \<and> rs_status unauthorized = 401
       \<and> route_m pf req e clk wm = handleAdminApi_m pf req clk wm"
proof -
  have no: "\<not> verifyAdminAuth_d req e"
    using assms(4) by (auto simp: verifyAdminAuth_d_def Let_def split: option.splits)
  show ?thesis
    using assms(1-3) no admin_not_storage [OF assms(2)]
    by (simp add: fetch_d_def route_d_def route_m_def verifyAdminAuth_m_def unauthorized_def
          json_response_def)
qed

theorem admin_api_requires_token_witness:
  "\<not> insecure_in_production
       (sample_request ''POST'' ''/admin/test-connection'' [(''authorization'', ''Bearer guess'')]
          (JsonBody (JObj [(''targetApiUrl'', JStr ''https://llm.example.com'')]))) sample_env
   \<and> fetch_d platform_up
       (sample_request ''POST'' ''/admin/test-connection'' [(''authorization'', ''Bearer guess'')]
          (JsonBody (JObj [(''targetApiUrl'', JStr ''https://llm.example.com'')])))
       sample_env sample_clock fresh_world
     = (unauthorized, fresh_world)"
proof -
  let ?req = "sample_request ''POST'' ''/admin/test-connection'' [(''authorization'', ''Bearer guess'')]
          (JsonBody (JObj [(''targetApiUrl'', JStr ''https://llm.example.com'')]))"
  have h1: "\<not> insecure_in_production ?req sample_env"
    by (simp add: insecure_in_production_def sample_request_def)
  have h2: "startsWith (rq_pathname ?req) ''/admin/''"
    by (simp add: sample_request_def startsWith_def)
  have h3: "rq_pathname ?req \<noteq> ''/admin/''"
    by (simp add: sample_request_def)
  have h4: "case hget ''authorization'' (rq_headers ?req) of
           None \<Rightarrow> True
         | Some authHeader \<Rightarrow>
             replace_first ''Bearer '' [] authHeader = []
             \<or> (Some (replace_first ''Bearer '' [] authHeader) \<noteq> ADMIN_PASSWORD sample_env
                \<and> replace_first ''Bearer '' [] authHeader \<noteq> ''admin-token'')"
    by (simp add: sample_request_def hget_def startsWith_def sample_env_def)
  from admin_api_requires_token [OF h1 h2 h3 h4] h1 show ?thesis by blast
qed

text \<open>
  The claim as stated fails: with \<^verbatim>\<open>ADMIN_PASSWORD\<close> set to another value, the token
  \<^verbatim>\<open>admin-token\<close> passes the check of the durable worker and the connection probe is sent;
  the in-memory worker writes the configuration for a request without any token.
\<close>

theorem admin_token_counterexample:
  "ADMIN_PASSWORD sample_env = Some ''s3cret''
   \<and> fetch_d platform_up
       (sample_request ''POST'' ''/admin/test-connection'' [(''authorization'', ''Bearer admin-token'')]
          (JsonBody (JObj [(''targetApiUrl'', JStr ''https://llm.example.com'')])))
       sample_env sample_clock fresh_world
     = (json_response 200 (JObj [(''message'', JStr ''Connection successful''), (''status'', JNum 401)]),
        \<lparr>w_store = empty_store,
         w_calls = [\<lparr>oq_url = ''https://llm.example.com/v1/models'', oq_method = ''GET'',
                     oq_headers = [(''user-agent'', ''LLM-Proxy-API/1.0'')], oq_body = NoBody\<rparr>]\<rparr>)
   \<and> rs_status (fst (fetch_m platform_up
        (sample_request ''POST'' ''/admin/config'' []
           (JsonBody (JObj [(''targetApiUrl'', JStr ''https://evil.example.com'')])))
        sample_env sample_clock fresh_world_m)) = 200
   \<and> map_of (ms_config (w_store (snd (fetch_m platform_up
        (sample_request ''POST'' ''/admin/config'' []
           (JsonBody (JObj [(''targetApiUrl'', JStr ''https://evil.example.com'')])))
        sample_env sample_clock fresh_world_m)))) ''targetApiUrl''
     = Some (JStr ''https://evil.example.com'')"
  by (simp add: fetch_d_def route_d_def fetch_m_def route_m_def sample_request_def sample_env_def
        insecure_in_production_def startsWith_def verifyAdminAuth_d_def verifyAdminAuth_m_def
        hget_def handleAdminApi_d_def handleAdminApi_m_def handleTestConnection_def
        platform_up_def platform_down_def json_response_def fresh_world_def fresh_world_m_def
        handleConfig_m_def empty_memory_def object_of_def Let_def)

section \<open>The storage route\<close>

text \<open>
  Claim C2, as amended. In the worker over the durable store every request whose path
  starts with \<^verbatim>\<open>/api/storage\<close> and which passes the HTTPS rule (the deployment is not
  marked production, or the URL is https) is handed to the durable object with the prefix
  removed, whatever its headers and whatever the admin password; so a request under
  \<^verbatim>\<open>/api/storage\<close> reads and writes the configuration, reads, appends to and clears the
  log, and reads the statistics.
\<close>

theorem storage_route_unauthenticated:
  assumes "\<not> insecure_in_production req e" and "startsWith (rq_pathname req) ''/api/storage''"
  shows "route_d pf req e clk w =
           (fst (handleStorageRequest pf req clk (w_store w)),
            w\<lparr>w_store := snd (handleStorageRequest pf req clk (w_store w))\<rparr>)
       \<and> (rq_method req = ''GET'' \<and> rq_pathname req = ''/api/storage/config'' \<longrightarrow>
            handleStorageRequest pf req clk st = getConfig st)
       \<and> (rq_method req = ''POST'' \<and> rq_pathname req = ''/api/storage/config''
            \<and> rq_body req = JsonBody data \<longrightarrow>
            handleStorageRequest pf req clk st = setConfig data clk st)
       \<and> (rq_method req = ''GET'' \<and> rq_pathname req = ''/api/storage/logs'' \<longrightarrow>
            handleStorageRequest pf req clk st = getLogs (limit_param req) st)
       \<and> (rq_method req = ''POST'' \<and> rq_pathname req = ''/api/storage/logs''
            \<and> rq_body req = JsonBody data \<longrightarrow>
            handleStorageRequest pf req clk st = addLog data clk st)
       \<and> (rq_method req = ''DELETE'' \<and> rq_pathname req = ''/api/storage/logs'' \<longrightarrow>
            handleStorageRequest pf req clk st = clearLogs st)
       \<and> (rq_method req = ''GET'' \<and> rq_pathname req = ''/api/storage/stats'' \<longrightarrow>
            handleStorageRequest pf req clk st = getStats pf st)"
proof -
  have r: "route_d pf req e clk w =
           (fst (handleStorageRequest pf req clk (w_store w)),
            w\<lparr>w_store := snd (handleStorageRequest pf req clk (w_store w))\<rparr>)"
    using assms by (simp add: route_d_def split: prod.splits)
  have ops: "\<And>p. rq_pathname req = ''/api/storage'' @ p \<Longrightarrow> startsWith p ''/'' \<Longrightarrow>
      handleStorageRequest pf req clk st = storage_fetch pf (req\<lparr>rq_pathname := p\<rparr>) clk st"
    by (simp add: handleStorageRequest_def startsWith_def set_pathname_def)
  have c: "rq_pathname req = ''/api/storage/config'' \<Longrightarrow>
      handleStorageRequest pf req clk st = storage_fetch pf (req\<lparr>rq_pathname := ''/config''\<rparr>) clk st"
    using ops [of "''/config''"] by (simp add: startsWith_def)
  have l: "rq_pathname req = ''/api/storage/logs'' \<Longrightarrow>
      handleStorageRequest pf req clk st = storage_fetch pf (req\<lparr>rq_pathname := ''/logs''\<rparr>) clk st"
    using ops [of "''/logs''"] by (simp add: startsWith_def)
  have s: "rq_pathname req = ''/api/storage/stats'' \<Longrightarrow>
      handleStorageRequest pf req clk st = storage_fetch pf (req\<lparr>rq_pathname := ''/stats''\<rparr>) clk st"
    using ops [of "''/stats''"] by (simp add: startsWith_def)
  show ?thesis
    using r c l s
    by (simp add: storage_fetch_def storage_handleConfig_def storage_handleLogs_def
          storage_handleStats_def startsWith_def limit_param_pathname)
qed

theorem storage_route_unauthenticated_witness:
  "\<not> insecure_in_production (sample_request ''DELETE'' ''/api/storage/logs'' [] NoBody) sample_env
   \<and> startsWith (rq_pathname (sample_request ''DELETE'' ''/api/storage/logs'' [] NoBody)) ''/api/storage''
   \<and> hget ''authorization'' (rq_headers (sample_request ''DELETE'' ''/api/storage/logs'' [] NoBody)) = None
   \<and> route_d platform_down (sample_request ''DELETE'' ''/api/storage/logs'' [] NoBody) sample_env
        sample_clock \<lparr>w_store = three_logs, w_calls = []\<rparr>
     = (Inr (json_response 200 (JObj [(''message'', JStr ''Logs cleared'')])),
        \<lparr>w_store = \<lparr>st_config = None, st_logs = Some []\<rparr>, w_calls = []\<rparr>)"
proof -
  let ?req = "sample_request ''DELETE'' ''/api/storage/logs'' [] NoBody"
  have h1: "\<not> insecure_in_production ?req sample_env"
    by (simp add: insecure_in_production_def sample_request_def)
  have h2: "startsWith (rq_pathname ?req) ''/api/storage''"
    by (simp add: sample_request_def startsWith_def)
  have h3: "hget ''authorization'' (rq_headers ?req) = None"
    by (simp add: sample_request_def hget_def)
  have m: "rq_method ?req = ''DELETE'' \<and> rq_pathname ?req = ''/api/storage/logs''"
    by (simp add: sample_request_def)
  from storage_route_unauthenticated [OF h1 h2, of platform_down sample_clock
         "\<lparr>w_store = three_logs, w_calls = []\<rparr>" three_logs] m h1 h2 h3
  show ?thesis
    by (simp add: clearLogs_def three_logs_def)
qed

text \<open>
  The claim as stated fails: in a deployment marked production, a request to
  \<^verbatim>\<open>/api/storage/logs\<close> over http is answered with 403 before the path is looked at; it is
  not handed to the durable object, and the log it would have cleared is untouched.
\<close>

theorem storage_route_http_counterexample:
  "ENVIRONMENT sample_env = Some ''production''
   \<and> startsWith
        (rq_pathname ((sample_request ''DELETE'' ''/api/storage/logs'' [] NoBody)\<lparr>rq_protocol := ''http:''\<rparr>))
        ''/api/storage''
   \<and> fetch_d platform_down
        ((sample_request ''DELETE'' ''/api/storage/logs'' [] NoBody)\<lparr>rq_protocol := ''http:''\<rparr>)
        sample_env sample_clock \<lparr>w_store = three_logs, w_calls = []\<rparr>
     = (text_response 403 ''Please use HTTPS'', \<lparr>w_store = three_logs, w_calls = []\<rparr>)
   \<and> handleStorageRequest platform_down
        ((sample_request ''DELETE'' ''/api/storage/logs'' [] NoBody)\<lparr>rq_protocol := ''http:''\<rparr>)
        sample_clock three_logs
     = (Inr (json_response 200 (JObj [(''message'', JStr ''Logs cleared'')])),
        \<lparr>st_config = None, st_logs = Some []\<rparr>)
   \<and> route_d platform_down
        ((sample_request ''DELETE'' ''/api/storage/logs'' [] NoBody)\<lparr>rq_protocol := ''http:''\<rparr>)
        sample_env sample_clock \<lparr>w_store = three_logs, w_calls = []\<rparr>
     \<noteq> (fst (handleStorageRequest platform_down
               ((sample_request ''DELETE'' ''/api/storage/logs'' [] NoBody)\<lparr>rq_protocol := ''http:''\<rparr>)
               sample_clock three_logs),
         \<lparr>w_store = snd (handleStorageRequest platform_down
               ((sample_request ''DELETE'' ''/api/storage/logs'' [] NoBody)\<lparr>rq_protocol := ''http:''\<rparr>)
               sample_clock three_logs),
          w_calls = []\<rparr>)"
  by (simp add: fetch_d_def route_d_def insecure_in_production_def sample_env_def
        sample_request_def startsWith_def handleStorageRequest_def set_pathname_def
        storage_fetch_def storage_handleLogs_def clearLogs_def three_logs_def
        text_response_def json_response_def)

section \<open>Resolving the upstream\<close>

text \<open>
  Claim C4, at a failing input. The durable store holds a \<^verbatim>\<open>targetApiUrl\<close>, the request
  has no \<^verbatim>\<open>x-target-api-url\<close> header and the environment sets no \<^verbatim>\<open>TARGET_API_URL\<close>. The
  worker over the durable store resolves the static default and not the stored URL: it
  asks the durable object for \<^verbatim>\<open>/api/storage/config\<close>, which answers 404. The worker
  over the in-memory store resolves the stored URL without its trailing slash.
\<close>

theorem stored_target_ignored:
  "hget ''x-target-api-url'' (rq_headers chat_request) = None
   \<and> map_of (stored_config configured_store) ''targetApiUrl'' = Some (JStr ''https://llm.example.com/'')
   \<and> storage_fetch platform_ok (stub_request ''GET'' ''/api/storage/config'' [] NoBody) sample_clock
        configured_store = (Inr (text_response 404 ''Not found''), configured_store)
   \<and> fst (getTargetApiUrl_d platform_ok chat_request sample_env sample_clock configured_store)
       = ''https://api.openai.com''
   \<and> getTargetApiUrl_m chat_request sample_env configured_memory = Inr ''https://llm.example.com''"
  by (simp add: getTargetApiUrl_d_def getTargetApiUrl_m_def chat_request_def storage_fetch_def
        stub_request_def startsWith_def response_ok_def text_response_def
        sample_request_def hget_def configured_store_def configured_memory_def stored_config_def
        static_target_def sample_env_def default_target_def strip_slash_def empty_memory_def)

section \<open>Forwarding\<close>

text \<open>
  Claim C6. \<^verbatim>\<open>forwardRequest\<close> always returns a response and never throws; when building
  or sending the outbound request, or anything else in its \<^verbatim>\<open>try\<close> block, throws with
  some reason, the response has status 502 and the body
  \<^verbatim>\<open>{error: 'Failed to forward request', message: reason}\<close>.
\<close>

theorem forwardRequest_catches:
  "(\<exists>r. fst (forwardRequest pf req targetUrl e calls) = Inr r)
   \<and> (pf_fetch pf (forward_request_of req targetUrl e) = Inl reason
        \<or> forward_try pf req targetUrl e = Inl reason \<longrightarrow>
        fst (forwardRequest pf req targetUrl e calls) =
          Inr (json_response 502 (JObj [(''error'', JStr ''Failed to forward request''),
                                        (''message'', JStr reason)]))
        \<and> rs_status (json_response 502 (JObj [(''error'', JStr ''Failed to forward request''),
                                               (''message'', JStr reason)])) = 502)"
  by (auto simp: forwardRequest_def forward_try_def json_response_def
        split: sum.splits option.splits)

theorem forwardRequest_catches_witness:
  "pf_fetch platform_down
     (forward_request_of chat_request ''https://api.openai.com/v1/chat/completions'' sample_env)
     = Inl ''connection refused''
   \<and> fst (forwardRequest platform_down chat_request ''https://api.openai.com/v1/chat/completions''
            sample_env [])
     = Inr (json_response 502 (JObj [(''error'', JStr ''Failed to forward request''),
                                     (''message'', JStr ''connection refused'')]))"
proof -
  have h: "pf_fetch platform_down
     (forward_request_of chat_request ''https://api.openai.com/v1/chat/completions'' sample_env)
     = Inl ''connection refused''"
    by (simp add: platform_down_def)
  from forwardRequest_catches [of platform_down chat_request
         "''https://api.openai.com/v1/chat/completions''" sample_env "[]" "''connection refused''"] h
  show ?thesis by blast
qed

section \<open>Logging of forwarded requests\<close>

text \<open>
  What a handler of the in-memory worker does once the upstream is resolved: it returns
  the response of \<^verbatim>\<open>forwardRequest\<close> and appends one entry with the endpoint, the target,
  the status of that response, the elapsed time and the time stamp of the store. The
  handler of the durable worker returns the same response and leaves the store as it was.
\<close>

lemma handleEndpoint_m_logs_once:
  assumes "getTargetApiUrl_m req e (w_store w) = Inr target"
  shows "\<exists>response.
           fst (forwardRequest pf req (target @ endpoint) e (w_calls w)) = Inr response
         \<and> fst (handleEndpoint_m endpoint pf req e clk w) = Inr response
         \<and> ms_logs (w_store (snd (handleEndpoint_m endpoint pf req e clk w))) =
             push_capped
               (make_log (new_id clk)
                  (logData_json \<lparr>ld_endpoint = endpoint, ld_targetApi = target,
                                 ld_status = rs_status response,
                                 ld_duration = t_end clk - t_start clk,
                                 ld_timestamp = iso_handler clk, ld_error = None\<rparr>)
                  (iso_store clk))
               (ms_logs (w_store w))"
  using assms
  by (auto simp: handleEndpoint_m_def forwardRequest_def logRequest_m_logs Let_def
        split: sum.splits)

lemma handleEndpoint_d_store_unchanged:
  "w_store (snd (handleEndpoint_d endpoint pf req e clk w)) = w_store w"
proof -
  have t: "snd (getTargetApiUrl_d pf req e clk st) = st" for st
    by (cases "str_or (hget ''x-target-api-url'' (rq_headers req)) None")
      (simp_all add: getTargetApiUrl_d_ignores_store, simp add: getTargetApiUrl_d_def)
  show ?thesis
    using t [of "w_store w"]
    by (auto simp: handleEndpoint_d_def logRequest_d_no_effect forwardRequest_def Let_def
          split: prod.splits sum.splits)
qed

text \<open>
  Claim C7, at a failing input. A POST to \<^verbatim>\<open>/v1/chat/completions\<close> that the upstream
  answers with 200 is relayed by the worker over the durable store, and the log of the
  durable store is as empty as before: \<^verbatim>\<open>logRequest\<close> posts to \<^verbatim>\<open>/api/storage/logs\<close>,
  which the durable object answers with 404 without reaching \<^verbatim>\<open>addLog\<close>. The worker over
  the in-memory store appends one entry for the same request.
\<close>

theorem durable_log_never_written:
  "fst (fetch_d platform_ok chat_request sample_env sample_clock fresh_world)
     = \<lparr>rs_status = 200, rs_statusText = ''OK'',
        rs_headers = [(''content-type'', ''application/json''), (''access-control-allow-origin'', ''*''),
                      (''x-content-type-options'', ''nosniff'')],
        rs_body = JsonBody (JObj [(''id'', JStr ''chatcmpl-1'')])\<rparr>
   \<and> storage_fetch platform_ok
        (stub_request ''POST'' ''/api/storage/logs'' [(''content-type'', ''application/json'')]
           (JsonBody (logData_json sample_logData))) sample_clock empty_store
       = (Inr (text_response 404 ''Not found''), empty_store)
   \<and> w_store (snd (fetch_d platform_ok chat_request sample_env sample_clock fresh_world)) = empty_store
   \<and> stored_logs (w_store (snd (fetch_d platform_ok chat_request sample_env sample_clock fresh_world)))
       = []
   \<and> ms_logs (w_store (snd (fetch_m platform_ok chat_request sample_env sample_clock fresh_world_m)))
       = [JObj [(''id'', JStr (new_id sample_clock)), (''endpoint'', JStr ''/v1/chat/completions''),
                (''targetApi'', JStr ''https://api.openai.com''), (''status'', JNum 200),
                (''duration'', JNum 42), (''timestamp'', JStr (iso_store sample_clock))]]"
  by (simp add: fetch_d_def route_d_def fetch_m_def route_m_def chat_request_def sample_request_def
        insecure_in_production_def sample_env_def startsWith_def handleChatCompletion_d_def
        handleChatCompletion_m_def handleEndpoint_d_def handleEndpoint_m_def
        getTargetApiUrl_d_def getTargetApiUrl_m_def logRequest_d_def storage_fetch_def
        stub_request_def response_ok_def text_response_def hget_def static_target_def
        default_target_def strip_slash_def
        forwardRequest_def forward_try_def relay_error_def platform_ok_def platform_down_def
        logRequest_m_def push_capped_def make_log_def logData_json_def object_of_def
        sample_clock_def fresh_world_def fresh_world_m_def
        empty_memory_def empty_store_def stored_logs_def Let_def)

section \<open>The two stores side by side\<close>

lemma op_step:
  assumes "op_valid x" and "same_state st ms"
  shows "fst (op_d pf x clk st) = fst (op_m pf x clk ms)
       \<and> same_state (snd (op_d pf x clk st)) (snd (op_m pf x clk ms))
       \<and> ms_stats (snd (op_m pf x clk ms)) = ms_stats ms"
proof (cases x)
  case GetConfig
  with assms show ?thesis
    by (simp add: op_d_def op_m_def storage_fetch_def stub_request_def startsWith_def
          storage_handleConfig_def getConfig_def handleAdminApi_m_def handleConfig_m_def
          same_state_def)
next
  case (SetConfig d)
  with assms show ?thesis
    by (simp add: op_d_def op_m_def storage_fetch_def stub_request_def startsWith_def
          storage_handleConfig_def setConfig_def handleAdminApi_m_def handleConfig_m_def
          same_state_def stored_config_def stored_logs_def Let_def)
next
  case (AppendLog d)
  with assms show ?thesis
    by (simp add: op_d_def op_m_def storage_fetch_def stub_request_def startsWith_def
          storage_handleLogs_def addLog_def handleAdminApi_m_def handleLogs_m_def
          same_state_def stored_config_def stored_logs_def Let_def)
next
  case (GetLogs q)
  with assms show ?thesis
    by (simp add: op_d_def op_m_def storage_fetch_def stub_request_def startsWith_def
          storage_handleLogs_def getLogs_def handleAdminApi_m_def handleLogs_m_def
          same_state_def limit_param_def)
next
  case ClearLogs
  with assms show ?thesis
    by (simp add: op_d_def op_m_def storage_fetch_def stub_request_def startsWith_def
          storage_handleLogs_def clearLogs_def handleAdminApi_m_def handleLogs_m_def
          same_state_def stored_config_def stored_logs_def)
qed

lemma run_same:
  "list_all (\<lambda>(x, clk). op_valid x) xs \<Longrightarrow> same_state st ms \<Longrightarrow>
     fst (run_d pf xs st) = fst (run_m pf xs ms)
     \<and> same_state (snd (run_d pf xs st)) (snd (run_m pf xs ms))
     \<and> ms_stats (snd (run_m pf xs ms)) = ms_stats ms"
proof (induction xs arbitrary: st ms)
  case Nil
  then show ?case by simp
next
  case (Cons a xs)
  obtain x clk where a: "a = (x, clk)" by (cases a)
  from Cons.prems a have v: "op_valid x" and rest: "list_all (\<lambda>(x, clk). op_valid x) xs"
    by simp_all
  note s = op_step [OF v Cons.prems(2), of pf clk]
  from s have rel: "same_state (snd (op_d pf x clk st)) (snd (op_m pf x clk ms))" by simp
  from Cons.IH [OF rest rel] s a show ?case
    by (simp add: split_beta Let_def)
qed

text \<open>
  Claim C5, as amended. For every identical run of getConfig, setConfig, appendLog, getLogs
  and clearLogs operations whose bodies are JSON values other than \<^verbatim>\<open>null\<close>, started in
  states with the same configuration and log, the durable store and the in-memory variant
  give the same answers and end with the same configuration and log. The statistics
  differ: the durable store derives \<^verbatim>\<open>totalRequests\<close> from the stored log, so it is the
  length of the log and 0 after clearLogs; the in-memory variant reports a counter that
  \<^verbatim>\<open>logRequest\<close> increments and that none of these operations changes.
\<close>

theorem variants_agree_except_stats:
  assumes "list_all (\<lambda>(x, clk). op_valid x) xs" and "same_state st ms"
  shows "fst (run_d pf xs st) = fst (run_m pf xs ms)
       \<and> same_state (snd (run_d pf xs st)) (snd (run_m pf xs ms))
       \<and> ms_stats (snd (run_m pf xs ms)) = ms_stats ms
       \<and> (\<exists>r. fst (getStats pf st) = Inr r
               \<and> stats_total r = Some (JNum (int (length (stored_logs st)))))
       \<and> (\<exists>r. fst (getStats pf (snd (clearLogs st))) = Inr r \<and> stats_total r = Some (JNum 0))
       \<and> stats_total (fst (handleStats_m pf get_stats_request ms)) =
           Some (JNum (cn_totalRequests (ms_stats ms)))
       \<and> cn_totalRequests (ms_stats (logRequest_m d clk ms)) = cn_totalRequests (ms_stats ms) + 1"
proof -
  have a: "\<exists>r. fst (getStats pf st) = Inr r
               \<and> stats_total r = Some (JNum (int (length (stored_logs st))))"
    by (simp add: getStats_def stats_total_def json_response_def Let_def)
  have b: "\<exists>r. fst (getStats pf (snd (clearLogs st))) = Inr r \<and> stats_total r = Some (JNum 0)"
    by (simp add: getStats_def clearLogs_def stats_total_def json_response_def stored_logs_def Let_def)
  have c: "stats_total (fst (handleStats_m pf get_stats_request ms)) =
           Some (JNum (cn_totalRequests (ms_stats ms)))"
    by (simp add: handleStats_m_def get_stats_request_def stub_request_def stats_total_def
          json_response_def Let_def)
  have d: "cn_totalRequests (ms_stats (logRequest_m d clk ms)) = cn_totalRequests (ms_stats ms) + 1"
    by (simp add: logRequest_m_def Let_def)
  from run_same [OF assms, of pf] a b c d show ?thesis by blast
qed

theorem variants_agree_except_stats_witness:
  "list_all (\<lambda>(x, clk). op_valid x)
     [(SetConfig (JObj [(''targetApiUrl'', JStr ''https://llm.example.com/'')]), sample_clock),
      (AppendLog sample_entry, sample_clock), (GetLogs [(''limit'', ''1'')], sample_clock),
      (ClearLogs, sample_clock), (GetConfig, sample_clock)]
   \<and> same_state empty_store empty_memory
   \<and> fst (run_d platform_down
        [(SetConfig (JObj [(''targetApiUrl'', JStr ''https://llm.example.com/'')]), sample_clock),
         (AppendLog sample_entry, sample_clock), (GetLogs [(''limit'', ''1'')], sample_clock),
         (ClearLogs, sample_clock), (GetConfig, sample_clock)] empty_store)
     = fst (run_m platform_down
        [(SetConfig (JObj [(''targetApiUrl'', JStr ''https://llm.example.com/'')]), sample_clock),
         (AppendLog sample_entry, sample_clock), (GetLogs [(''limit'', ''1'')], sample_clock),
         (ClearLogs, sample_clock), (GetConfig, sample_clock)] empty_memory)"
proof -
  have v: "list_all (\<lambda>(x, clk). op_valid x)
     [(SetConfig (JObj [(''targetApiUrl'', JStr ''https://llm.example.com/'')]), sample_clock),
      (AppendLog sample_entry, sample_clock), (GetLogs [(''limit'', ''1'')], sample_clock),
      (ClearLogs, sample_clock), (GetConfig, sample_clock)]"
    by (simp add: sample_entry_def)
  have s: "same_state empty_store empty_memory"
    by (simp add: same_state_def empty_store_def empty_memory_def stored_config_def stored_logs_def)
  from variants_agree_except_stats [OF v s, of platform_down] v s show ?thesis by blast
qed

text \<open>
  The claim as stated fails: after one forwarded request has been logged and the log has
  been cleared, the in-memory variant has an empty log and reports \<^verbatim>\<open>totalRequests\<close> 1.
\<close>

theorem stats_after_clear_counterexample:
  "ms_logs (snd (op_m platform_down ClearLogs sample_clock
                   (logRequest_m sample_logData sample_clock empty_memory))) = []
   \<and> stats_total (fst (handleStats_m platform_down get_stats_request
        (snd (op_m platform_down ClearLogs sample_clock
                (logRequest_m sample_logData sample_clock empty_memory))))) = Some (JNum 1)"
  by (simp add: op_m_def handleAdminApi_m_def stub_request_def startsWith_def handleLogs_m_def
        logRequest_m_def empty_memory_def handleStats_m_def get_stats_request_def stats_total_def
        json_response_def platform_down_def Let_def)

section \<open>Writing the configuration\<close>

lemma config_lookup:
  assumes "distinct (map fst props)" "distinct (map fst existing)"
  shows "map_of (object_of (existing @ props @ [(''updatedAt'', u)])) k =
           (if k = ''updatedAt'' then Some u
            else case map_of props k of Some v \<Rightarrow> Some v | None \<Rightarrow> map_of existing k)"
  using assms
  by (simp add: map_of_object_of map_of_rev_distinct map_add_def split: option.splits)

lemma merged_contains:
  assumes "distinct (map fst pa)" and "distinct (map fst pb)" and "distinct (map fst c0)"
    and "set (map fst pa) \<inter> set (map fst pb) = {}"
    and "''updatedAt'' \<notin> set (map fst (pa @ pb))"
    and "(k, v) \<in> set (pa @ pb)"
  shows "map_of (object_of (object_of (c0 @ pa @ [(''updatedAt'', u1)]) @ pb @ [(''updatedAt'', u2)])) k
           = Some v"
proof -
  have k: "k \<noteq> ''updatedAt''"
    using assms(5,6) by (force simp: image_iff)
  show ?thesis
  proof (cases "(k, v) \<in> set pb")
    case True
    with assms(2) have "map_of pb k = Some v" by simp
    with k assms(2) show ?thesis
      by (simp add: config_lookup object_of_distinct)
  next
    case False
    with assms(6) have a: "(k, v) \<in> set pa" by simp
    with assms(1) have pa: "map_of pa k = Some v" by simp
    from a assms(4) have "k \<notin> fst ` set pb" by (force simp: image_iff)
    then have "map_of pb k = None" by (simp add: map_of_eq_None_iff)
    with k pa assms(1,2,3) show ?thesis
      by (simp add: config_lookup object_of_distinct)
  qed
qed

lemma setConfig_rejects:
  "data \<noteq> JNull \<Longrightarrow> config_rejected data \<Longrightarrow>
     snd (setConfig data clk st) = st
     \<and> (\<exists>r. fst (setConfig data clk st) = Inr r \<and> rs_status r = 400)"
  by (auto simp: setConfig_def config_rejected_def json_response_def)

lemma setConfig_accepts:
  "data \<noteq> JNull \<Longrightarrow> \<not> config_rejected data \<Longrightarrow>
     setConfig data clk st =
       (Inr (json_response 200 (JObj (object_of (stored_config st @ own_props data
                                                @ [(''updatedAt'', JStr (iso_store clk))])))),
        st\<lparr>st_config := Some (object_of (stored_config st @ own_props data
                                                @ [(''updatedAt'', JStr (iso_store clk))]))\<rparr>)"
  by (auto simp: setConfig_def config_rejected_def Let_def)

lemma handleConfig_m_rejects:
  "data \<noteq> JNull \<Longrightarrow> config_rejected data \<Longrightarrow>
     snd (handleConfig_m (post_config_request data) clk ms) = ms
     \<and> rs_status (fst (handleConfig_m (post_config_request data) clk ms)) = 400"
  by (auto simp: handleConfig_m_def post_config_request_def config_rejected_def json_response_def)

lemma handleConfig_m_accepts:
  "data \<noteq> JNull \<Longrightarrow> \<not> config_rejected data \<Longrightarrow>
     handleConfig_m (post_config_request data) clk ms =
       (json_response 200 (JObj (object_of (ms_config ms @ own_props data
                                                @ [(''updatedAt'', JStr (iso_store clk))]))),
        ms\<lparr>ms_config := object_of (ms_config ms @ own_props data
                                                @ [(''updatedAt'', JStr (iso_store clk))])\<rparr>)"
  by (auto simp: handleConfig_m_def post_config_request_def config_rejected_def Let_def)

text \<open>
  Claim C8, as amended. For a configuration with distinct keys and an update other than
  \<^verbatim>\<open>null\<close> with distinct keys, \<^verbatim>\<open>setConfig\<close> of the durable store and the POST of the
  in-memory configuration route answer 400 and change nothing when \<^verbatim>\<open>targetApiUrl\<close> or
  \<^verbatim>\<open>adminPassword\<close> is provided with a truthy value that is not a string (a value that is
  \<^verbatim>\<open>null\<close>, \<^verbatim>\<open>false\<close>, \<^verbatim>\<open>0\<close> or the empty string passes). Otherwise they answer 200 with
  the new record, leave the log alone, set \<^verbatim>\<open>updatedAt\<close> to the time of the call, take every
  other provided field from the update and keep the previous value of every field the
  update does not provide. So after two accepted updates with disjoint fields, none of
  them \<^verbatim>\<open>updatedAt\<close>, the record holds the fields of both.
\<close>

theorem setConfig_validates_and_merges:
  assumes "data \<noteq> JNull" and "distinct (map fst (own_props data))"
    and "distinct (map fst (stored_config st))" and "distinct (map fst (ms_config ms))"
  shows "(if config_rejected data
          then snd (setConfig data clk st) = st
             \<and> (\<exists>r. fst (setConfig data clk st) = Inr r \<and> rs_status r = 400)
             \<and> snd (handleConfig_m (post_config_request data) clk ms) = ms
             \<and> rs_status (fst (handleConfig_m (post_config_request data) clk ms)) = 400
          else fst (setConfig data clk st) =
                 Inr (json_response 200 (JObj (stored_config (snd (setConfig data clk st)))))
             \<and> st_logs (snd (setConfig data clk st)) = st_logs st
             \<and> distinct (map fst (stored_config (snd (setConfig data clk st))))
             \<and> (\<forall>k. map_of (stored_config (snd (setConfig data clk st))) k =
                      (if k = ''updatedAt'' then Some (JStr (iso_store clk))
                       else case map_of (own_props data) k of
                              Some v \<Rightarrow> Some v
                            | None \<Rightarrow> map_of (stored_config st) k))
             \<and> fst (handleConfig_m (post_config_request data) clk ms) =
                 json_response 200 (JObj (ms_config (snd (handleConfig_m (post_config_request data) clk ms))))
             \<and> ms_logs (snd (handleConfig_m (post_config_request data) clk ms)) = ms_logs ms
             \<and> ms_stats (snd (handleConfig_m (post_config_request data) clk ms)) = ms_stats ms
             \<and> distinct (map fst (ms_config (snd (handleConfig_m (post_config_request data) clk ms))))
             \<and> (\<forall>k. map_of (ms_config (snd (handleConfig_m (post_config_request data) clk ms))) k =
                      (if k = ''updatedAt'' then Some (JStr (iso_store clk))
                       else case map_of (own_props data) k of
                              Some v \<Rightarrow> Some v
                            | None \<Rightarrow> map_of (ms_config ms) k)))
       \<and> (b \<noteq> JNull \<and> \<not> config_rejected data \<and> \<not> config_rejected b
            \<and> distinct (map fst (own_props b))
            \<and> set (map fst (own_props data)) \<inter> set (map fst (own_props b)) = {}
            \<and> ''updatedAt'' \<notin> set (map fst (own_props data @ own_props b))
          \<longrightarrow> (\<forall>(k, v) \<in> set (own_props data @ own_props b).
                 map_of (stored_config (snd (setConfig b clk2 (snd (setConfig data clk st))))) k = Some v
               \<and> map_of (ms_config (snd (handleConfig_m (post_config_request b) clk2
                           (snd (handleConfig_m (post_config_request data) clk ms))))) k = Some v))"
proof -
  have one: "if config_rejected data
          then snd (setConfig data clk st) = st
             \<and> (\<exists>r. fst (setConfig data clk st) = Inr r \<and> rs_status r = 400)
             \<and> snd (handleConfig_m (post_config_request data) clk ms) = ms
             \<and> rs_status (fst (handleConfig_m (post_config_request data) clk ms)) = 400
          else fst (setConfig data clk st) =
                 Inr (json_response 200 (JObj (stored_config (snd (setConfig data clk st)))))
             \<and> st_logs (snd (setConfig data clk st)) = st_logs st
             \<and> distinct (map fst (stored_config (snd (setConfig data clk st))))
             \<and> (\<forall>k. map_of (stored_config (snd (setConfig data clk st))) k =
                      (if k = ''updatedAt'' then Some (JStr (iso_store clk))
                       else case map_of (own_props data) k of
                              Some v \<Rightarrow> Some v
                            | None \<Rightarrow> map_of (stored_config st) k))
             \<and> fst (handleConfig_m (post_config_request data) clk ms) =
                 json_response 200 (JObj (ms_config (snd (handleConfig_m (post_config_request data) clk ms))))
             \<and> ms_logs (snd (handleConfig_m (post_config_request data) clk ms)) = ms_logs ms
             \<and> ms_stats (snd (handleConfig_m (post_config_request data) clk ms)) = ms_stats ms
             \<and> distinct (map fst (ms_config (snd (handleConfig_m (post_config_request data) clk ms))))
             \<and> (\<forall>k. map_of (ms_config (snd (handleConfig_m (post_config_request data) clk ms))) k =
                      (if k = ''updatedAt'' then Some (JStr (iso_store clk))
                       else case map_of (own_props data) k of
                              Some v \<Rightarrow> Some v
                            | None \<Rightarrow> map_of (ms_config ms) k))"
  proof (cases "config_rejected data")
    case True
    with assms(1) setConfig_rejects [of data clk st] handleConfig_m_rejects [of data clk ms]
    show ?thesis by simp
  next
    case False
    note d = setConfig_accepts [OF assms(1) False, of clk st]
    note m = handleConfig_m_accepts [OF assms(1) False, of clk ms]
    show ?thesis
      using False assms(2-4)
      by (simp add: d m stored_config_def [of "st\<lparr>st_config := _\<rparr>"] object_of_distinct config_lookup)
  qed
  have two: "\<forall>(k, v) \<in> set (own_props data @ own_props b).
                 map_of (stored_config (snd (setConfig b clk2 (snd (setConfig data clk st))))) k = Some v
               \<and> map_of (ms_config (snd (handleConfig_m (post_config_request b) clk2
                           (snd (handleConfig_m (post_config_request data) clk ms))))) k = Some v"
    if h: "b \<noteq> JNull" "\<not> config_rejected data" "\<not> config_rejected b"
       "distinct (map fst (own_props b))"
       "set (map fst (own_props data)) \<inter> set (map fst (own_props b)) = {}"
       "''updatedAt'' \<notin> set (map fst (own_props data @ own_props b))"
  proof -
    have "map_of (stored_config (snd (setConfig b clk2 (snd (setConfig data clk st))))) k = Some v
        \<and> map_of (ms_config (snd (handleConfig_m (post_config_request b) clk2
                           (snd (handleConfig_m (post_config_request data) clk ms))))) k = Some v"
      if kv: "(k, v) \<in> set (own_props data @ own_props b)" for k v
      using merged_contains [OF assms(2) h(4) assms(3) h(5) h(6) kv]
            merged_contains [OF assms(2) h(4) assms(4) h(5) h(6) kv]
      by (simp add: setConfig_accepts [OF assms(1) h(2)] setConfig_accepts [OF h(1) h(3)]
            handleConfig_m_accepts [OF assms(1) h(2)] handleConfig_m_accepts [OF h(1) h(3)]
            stored_config_def [of "st\<lparr>st_config := _\<rparr>"]
            stored_config_def [of "st\<lparr>st_config := _, st_config := _\<rparr>"])
    then show ?thesis by blast
  qed
  from one two show ?thesis by blast
qed

theorem setConfig_validates_and_merges_witness:
  "JObj [(''targetApiUrl'', JStr ''https://llm.example.com/'')] \<noteq> JNull
   \<and> distinct (map fst (own_props (JObj [(''targetApiUrl'', JStr ''https://llm.example.com/'')])))
   \<and> distinct (map fst (stored_config empty_store)) \<and> distinct (map fst (ms_config empty_memory))
   \<and> \<not> config_rejected (JObj [(''targetApiUrl'', JStr ''https://llm.example.com/'')])
   \<and> \<not> config_rejected (JObj [(''adminPassword'', JStr ''hunter2'')])
   \<and> map_of (stored_config (snd (setConfig (JObj [(''adminPassword'', JStr ''hunter2'')]) sample_clock
        (snd (setConfig (JObj [(''targetApiUrl'', JStr ''https://llm.example.com/'')]) sample_clock
               empty_store))))) ''targetApiUrl'' = Some (JStr ''https://llm.example.com/'')
   \<and> map_of (stored_config (snd (setConfig (JObj [(''adminPassword'', JStr ''hunter2'')]) sample_clock
        (snd (setConfig (JObj [(''targetApiUrl'', JStr ''https://llm.example.com/'')]) sample_clock
               empty_store))))) ''adminPassword'' = Some (JStr ''hunter2'')"
proof -
  let ?a = "JObj [(''targetApiUrl'', JStr ''https://llm.example.com/'')]"
  let ?b = "JObj [(''adminPassword'', JStr ''hunter2'')]"
  have h1: "?a \<noteq> JNull" by simp
  have h2: "distinct (map fst (own_props ?a))" by simp
  have h3: "distinct (map fst (stored_config empty_store))"
    by (simp add: empty_store_def stored_config_def)
  have h4: "distinct (map fst (ms_config empty_memory))"
    by (simp add: empty_memory_def)
  have ra: "\<not> config_rejected ?a" by (simp add: config_rejected_def)
  have rb: "\<not> config_rejected ?b" by (simp add: config_rejected_def)
  from setConfig_validates_and_merges [OF h1 h2 h3 h4, of sample_clock ?b sample_clock] ra rb
  have "\<forall>(k, v) \<in> set (own_props ?a @ own_props ?b).
          map_of (stored_config (snd (setConfig ?b sample_clock (snd (setConfig ?a sample_clock
                    empty_store))))) k = Some v"
    by simp
  with h1 h2 h3 h4 ra rb show ?thesis by simp
qed

text \<open>
  The claim as stated fails: an update that provides \<^verbatim>\<open>targetApiUrl\<close> as the number 0,
  which is not a string, is accepted with status 200 and stored.
\<close>

theorem setConfig_falsy_counterexample:
  "\<not> is_string (property ''targetApiUrl'' (JObj [(''targetApiUrl'', JNum 0)]))
   \<and> setConfig (JObj [(''targetApiUrl'', JNum 0)]) sample_clock empty_store =
       (Inr (json_response 200
          (JObj [(''targetApiUrl'', JNum 0), (''updatedAt'', JStr (iso_store sample_clock))])),
        \<lparr>st_config = Some [(''targetApiUrl'', JNum 0), (''updatedAt'', JStr (iso_store sample_clock))],
         st_logs = None\<rparr>)
   \<and> rs_status (json_response 200
          (JObj [(''targetApiUrl'', JNum 0), (''updatedAt'', JStr (iso_store sample_clock))])) = 200"
  by (simp add: setConfig_def empty_store_def stored_config_def object_of_def json_response_def Let_def)

section \<open>Reading the log\<close>

lemma parseInt_null: "parseInt ''null'' = None"
  by (simp add: parse_simps)

lemma slice_from_neg:
  "slice_from (- l) xs = (if 0 < l then most_recent (nat l) xs else drop (nat (- l)) xs)"
  by (auto simp: slice_from_def most_recent_def nat_diff_distrib' max_def
        intro: arg_cong2 [where f = drop])

lemma limit_param_eq:
  "limit_param req =
     (case map_of (rq_query req) ''limit'' of
        None \<Rightarrow> 50
      | Some s \<Rightarrow> (case parseInt s of None \<Rightarrow> 50 | Some n \<Rightarrow> if n = 0 then 50 else n))"
  by (simp add: limit_param_def parseInt_null split: option.splits)

text \<open>
  Claim C9, as amended. For a GET on the logs, in the durable store and in the in-memory
  variant, the limit is what \<^verbatim>\<open>parseInt\<close> reads at the start of the \<^verbatim>\<open>limit\<close> parameter,
  and 50 when the parameter is absent, when \<^verbatim>\<open>parseInt\<close> finds no number, or when the
  number is 0. With a positive limit the answer is the last \<open>limit\<close> entries of the log (all
  of them when there are fewer) in their order of insertion; with a negative limit
  \<open>-k\<close> it is the log without its first \<open>k\<close> entries.
\<close>

theorem getLogs_window:
  assumes "rq_method req = ''GET''"
  shows "limit_param req =
           (case map_of (rq_query req) ''limit'' of
              None \<Rightarrow> 50
            | Some s \<Rightarrow> (case parseInt s of None \<Rightarrow> 50 | Some n \<Rightarrow> if n = 0 then 50 else n))
       \<and> storage_handleLogs req clk st =
           (Inr (json_response 200 (JArr
              (if 0 < limit_param req then most_recent (nat (limit_param req)) (stored_logs st)
               else drop (nat (- limit_param req)) (stored_logs st)))), st)
       \<and> handleLogs_m req clk ms =
           (json_response 200 (JArr
              (if 0 < limit_param req then most_recent (nat (limit_param req)) (ms_logs ms)
               else drop (nat (- limit_param req)) (ms_logs ms))), ms)"
  using assms
  by (simp add: limit_param_eq [symmetric] storage_handleLogs_def handleLogs_m_def getLogs_def
        slice_from_neg)

theorem getLogs_window_witness:
  "rq_method (get_logs_request [(''limit'', ''2'')]) = ''GET''
   \<and> limit_param (get_logs_request [(''limit'', ''2'')]) = 2
   \<and> storage_handleLogs (get_logs_request [(''limit'', ''2'')]) sample_clock three_logs =
       (Inr (json_response 200 (JArr [JStr ''second'', JStr ''third''])), three_logs)
   \<and> handleLogs_m (get_logs_request [(''limit'', ''2'')]) sample_clock three_logs_m =
       (json_response 200 (JArr [JStr ''second'', JStr ''third'']), three_logs_m)"
proof -
  have g: "rq_method (get_logs_request [(''limit'', ''2'')]) = ''GET''"
    by (simp add: get_logs_request_def)
  have l: "limit_param (get_logs_request [(''limit'', ''2'')]) = 2"
    by (simp add: limit_param_def get_logs_request_def parse_simps)
  from getLogs_window [OF g, of sample_clock three_logs three_logs_m] g l
  show ?thesis
    by (simp add: three_logs_def three_logs_m_def empty_memory_def stored_logs_def most_recent_def)
qed

text \<open>
  The claim as stated fails: the parameter \<^verbatim>\<open>limit=0\<close> is numeric, yet the limit falls
  back to 50 and the answer holds the whole log of three entries, not its last 0 entries.
\<close>

theorem getLogs_limit_zero_counterexample:
  "parseInt ''0'' = Some 0
   \<and> limit_param (get_logs_request [(''limit'', ''0'')]) = 50
   \<and> fst (storage_handleLogs (get_logs_request [(''limit'', ''0'')]) sample_clock three_logs) =
       Inr (json_response 200 (JArr [JStr ''first'', JStr ''second'', JStr ''third'']))
   \<and> fst (storage_handleLogs (get_logs_request [(''limit'', ''0'')]) sample_clock three_logs) \<noteq>
       Inr (json_response 200 (JArr (most_recent 0 (stored_logs three_logs))))"
  by (simp add: storage_handleLogs_def getLogs_def limit_param_def get_logs_request_def parse_simps
        three_logs_def stored_logs_def slice_from_def most_recent_def json_response_def)

section \<open>Preflight requests\<close>

text \<open>
  Claim C10, as amended. An OPTIONS request that passes the HTTPS check and whose path is
  neither \<^verbatim>\<open>/admin\<close> nor under \<^verbatim>\<open>/admin/\<close> gets, from both workers and with the state
  unchanged, a preflight answer: \<^verbatim>\<open>Access-Control-Allow-Methods\<close> is
  \<^verbatim>\<open>GET, POST, PUT, DELETE, OPTIONS\<close>, \<^verbatim>\<open>Access-Control-Allow-Origin\<close> is \<^verbatim>\<open>*\<close>, and
  \<^verbatim>\<open>Access-Control-Allow-Headers\<close> repeats the requested headers, or is \<^verbatim>\<open>*\<close> when none
  are requested.
\<close>

theorem options_preflight:
  assumes "rq_method req = ''OPTIONS''" and "\<not> insecure_in_production req e"
    and "rq_pathname req \<noteq> ''/admin''" and "\<not> startsWith (rq_pathname req) ''/admin/''"
  shows "cors_preflight req (fst (fetch_d pf req e clk wd)) \<and> snd (fetch_d pf req e clk wd) = wd
       \<and> cors_preflight req (fst (fetch_m pf req e clk wm)) \<and> snd (fetch_m pf req e clk wm) = wm
       \<and> fetch_m pf req e clk wm = (handleOptions req, wm)"
proof -
  have slash: "rq_pathname req \<noteq> ''/admin/''"
    using assms(4) by (auto simp: startsWith_def)
  have m: "fetch_m pf req e clk wm = (handleOptions req, wm)"
    using assms slash by (simp add: fetch_m_def route_m_def)
  have d: "cors_preflight req (fst (fetch_d pf req e clk wd)) \<and> snd (fetch_d pf req e clk wd) = wd"
  proof (cases "startsWith (rq_pathname req) ''/api/storage''")
    case True
    then show ?thesis
      using assms
      by (simp add: fetch_d_def route_d_def handleStorageRequest_def storage_fetch_def
            cors_storage_handleOptions)
  next
    case False
    then show ?thesis
      using assms slash by (simp add: fetch_d_def route_d_def cors_handleOptions)
  qed
  from m d cors_handleOptions [of req] show ?thesis by simp
qed

theorem options_preflight_witness:
  "rq_method (sample_request ''OPTIONS'' ''/v1/embeddings''
      [(''access-control-request-headers'', ''content-type'')] NoBody) = ''OPTIONS''
   \<and> \<not> insecure_in_production (sample_request ''OPTIONS'' ''/v1/embeddings''
      [(''access-control-request-headers'', ''content-type'')] NoBody) sample_env
   \<and> hget ''access-control-allow-headers'' (rs_headers (fst (fetch_d platform_down
        (sample_request ''OPTIONS'' ''/v1/embeddings''
           [(''access-control-request-headers'', ''content-type'')] NoBody)
        sample_env sample_clock fresh_world))) = Some ''content-type''
   \<and> hget ''access-control-allow-methods'' (rs_headers (fst (fetch_d platform_down
        (sample_request ''OPTIONS'' ''/v1/embeddings''
           [(''access-control-request-headers'', ''content-type'')] NoBody)
        sample_env sample_clock fresh_world))) = Some ''GET, POST, PUT, DELETE, OPTIONS''"
proof -
  let ?req = "sample_request ''OPTIONS'' ''/v1/embeddings''
      [(''access-control-request-headers'', ''content-type'')] NoBody"
  have h1: "rq_method ?req = ''OPTIONS''" by (simp add: sample_request_def)
  have h2: "\<not> insecure_in_production ?req sample_env"
    by (simp add: insecure_in_production_def sample_request_def)
  have h3: "rq_pathname ?req \<noteq> ''/admin''" by (simp add: sample_request_def)
  have h4: "\<not> startsWith (rq_pathname ?req) ''/admin/''"
    by (simp add: sample_request_def startsWith_def)
  from options_preflight [OF h1 h2 h3 h4, of platform_down sample_clock fresh_world] h1 h2
  show ?thesis
    by (simp add: cors_preflight_def sample_request_def hget_def)
qed

text \<open>
  The claim as stated fails: the preflight of a browser for \<^verbatim>\<open>/admin/config\<close>, which
  carries no Authorization header, is answered with 401 and without any CORS header.
\<close>

theorem options_admin_counterexample:
  "rq_method (sample_request ''OPTIONS'' ''/admin/config''
      [(''access-control-request-headers'', ''authorization'')] NoBody) = ''OPTIONS''
   \<and> fetch_d platform_down (sample_request ''OPTIONS'' ''/admin/config''
        [(''access-control-request-headers'', ''authorization'')] NoBody)
        sample_env sample_clock fresh_world
      = (unauthorized, fresh_world)
   \<and> rs_status unauthorized = 401
   \<and> hget ''access-control-allow-methods'' (rs_headers unauthorized) = None
   \<and> hget ''access-control-allow-origin'' (rs_headers unauthorized) = None"
  by (simp add: fetch_d_def route_d_def sample_request_def sample_env_def insecure_in_production_def
        startsWith_def verifyAdminAuth_d_def hget_def unauthorized_def json_response_def)

end
